theory Spec2Isabelle
  imports Complex_Main "HOL-Library.Sublist" "HOL-Library.Word"
begin

section \<open>JavaScript values, strings and regular-expression tests\<close>

text \<open>
  The values a property read of an untyped object can give. A number is a rational here:
  the only arithmetic of the sources is \<open>major + minor / 10\<close> on small integers and the
  comparison with a threshold.
\<close>

datatype jsval = JUndefined | JNull | JBool bool | JNum rat | JStr string

fun truthy :: "jsval \<Rightarrow> bool" where
  "truthy JUndefined = False"
| "truthy JNull = False"
| "truthy (JBool b) = b"
| "truthy (JNum n) = (n \<noteq> 0)"
| "truthy (JStr s) = (s \<noteq> [])"

text \<open>\<open>a || b\<close> on optional strings: the first operand unless it is undefined or empty.\<close>

fun orElse :: "string option \<Rightarrow> string option \<Rightarrow> string option" where
  "orElse (Some s) b = (if s = [] then b else Some s)"
| "orElse None b = b"

fun orDefault :: "string option \<Rightarrow> string \<Rightarrow> string" where
  "orDefault (Some s) d = (if s = [] then d else s)"
| "orDefault None d = d"

text \<open>\<open>String.prototype.includes\<close> and \<open>startsWith\<close>.\<close>

fun str_includes :: "string \<Rightarrow> string \<Rightarrow> bool" where
  "str_includes [] pat = (pat = [])"
| "str_includes (c # cs) pat = (prefix pat (c # cs) \<or> str_includes cs pat)"

definition startsWith :: "string \<Rightarrow> string \<Rightarrow> bool" where
  "startsWith s pat = prefix pat s"

text \<open>
  The flag \<open>i\<close> of a regular expression without the flag \<open>u\<close> never lets a character
  outside ASCII match an ASCII letter, so folding the ASCII capitals is the whole of it.
\<close>

definition toLowerAscii :: "char \<Rightarrow> char" where
  "toLowerAscii c =
     (case map_of (zip ''ABCDEFGHIJKLMNOPQRSTUVWXYZ'' ''abcdefghijklmnopqrstuvwxyz'') c of
        Some l \<Rightarrow> l
      | None \<Rightarrow> c)"

text \<open>\<open>/pat/i.test(s)\<close> for a pattern that is a plain lower-case word.\<close>

definition testCI :: "string \<Rightarrow> string \<Rightarrow> bool" where
  "testCI pat s = str_includes (map toLowerAscii s) pat"

text \<open>\<open>\d\<close> and \<open>parseInt(ds, 10)\<close> on a run of digits that \<open>\d+\<close> captured. The
  value is the exact number; the code's is the nearest double, which differs above
  \<open>2^53\<close> only.\<close>

definition isDigit :: "char \<Rightarrow> bool" where
  "isDigit c = (c \<in> set ''0123456789'')"

definition digitVal :: "char \<Rightarrow> nat" where
  "digitVal c = of_char c - 48"

definition parseInt :: "string \<Rightarrow> nat" where
  "parseInt ds = foldl (\<lambda>n c. 10 * n + digitVal c) 0 ds"

text \<open>
  \<open>s.match(re)\<close> for a regular expression without the flag \<open>g\<close>: the match is tried at
  each position from the left, and the first position where it succeeds gives the captures.
  The argument \<open>m\<close> is the match anchored at the start of its input.
\<close>

fun firstMatch :: "(string \<Rightarrow> 'a option) \<Rightarrow> string \<Rightarrow> 'a option" where
  "firstMatch m [] = m []"
| "firstMatch m (c # cs) = (case m (c # cs) of Some r \<Rightarrow> Some r | None \<Rightarrow> firstMatch m cs)"

text \<open>No position inside the prefix \<open>p\<close> of \<open>p @ s\<close> starts a match.\<close>

fun noMatchBefore :: "(string \<Rightarrow> 'a option) \<Rightarrow> string \<Rightarrow> string \<Rightarrow> bool" where
  "noMatchBefore m [] s = True"
| "noMatchBefore m (c # p) s = (m (c # p @ s) = None \<and> noMatchBefore m p s)"

section \<open>Capability detection\<close>

subsection \<open>Android (android-detection.ts)\<close>

record AndroidSupportInfo =
  isAndroid :: bool
  version :: "rat option"
  supportsNfc :: bool
  supportsWebNfc :: bool

text \<open>
  \<open>/Android (\d+)(?:\.(\d+))?/\<close> anchored at the start of the input: the captures are the
  major digits and, when a dot and digits follow them, the minor digits. Both \<open>\d+\<close> are
  greedy and nothing follows the optional group, so the longest runs of digits are taken.
\<close>

definition androidVersionAt :: "string \<Rightarrow> (string \<times> string option) option" where
  "androidVersionAt t =
     (if \<not> prefix ''Android '' t then None
      else let r = drop 8 t; major = takeWhile isDigit r in
        if major = [] then None
        else (case dropWhile isDigit r of
                d # r' \<Rightarrow>
                  (if d = CHR ''.'' \<and> takeWhile isDigit r' \<noteq> []
                   then Some (major, Some (takeWhile isDigit r'))
                   else Some (major, None))
              | [] \<Rightarrow> Some (major, None)))"

text \<open>\<open>/Chrome\/(\d+)/\<close> anchored at the start of the input.\<close>

definition chromeVersionAt :: "string \<Rightarrow> string option" where
  "chromeVersionAt t =
     (if \<not> prefix ''Chrome/'' t then None
      else let ds = takeWhile isDigit (drop 7 t) in if ds = [] then None else Some ds)"

definition getAndroidSupportInfo :: "string \<Rightarrow> AndroidSupportInfo" where
  "getAndroidSupportInfo userAgent =
     (if \<not> testCI ''android'' userAgent
      then \<lparr>isAndroid = False, version = None, supportsNfc = False, supportsWebNfc = False\<rparr>
      else
        let versionMatch = firstMatch androidVersionAt userAgent;
            version = (case versionMatch of
                         Some (major, minor) \<Rightarrow>
                           Some (of_nat (parseInt major)
                                 + of_nat (parseInt (case minor of Some ds \<Rightarrow> ds | None \<Rightarrow> ''0'')) / 10)
                       | None \<Rightarrow> None);
            supportsNfc = (case version of Some v \<Rightarrow> v \<ge> 4 | None \<Rightarrow> False);
            isChrome = (testCI ''chrome'' userAgent \<or> testCI ''chromium'' userAgent);
            chromeVersion = (case firstMatch chromeVersionAt userAgent of
                               Some ds \<Rightarrow> parseInt ds
                             | None \<Rightarrow> 0);
            supportsWebNfc = (isChrome \<and> chromeVersion \<ge> 89)
        in \<lparr>isAndroid = True, version = version, supportsNfc = supportsNfc,
            supportsWebNfc = supportsWebNfc\<rparr>)"

definition shouldUseNativeBridge :: "string \<Rightarrow> bool" where
  "shouldUseNativeBridge userAgent =
     (let androidInfo = getAndroidSupportInfo userAgent in
      if \<not> isAndroid androidInfo then False
      else
        let isWebView =
              ((testCI ''capacitor'' userAgent \<or> testCI ''cordova'' userAgent)
               \<or> (testCI ''android'' userAgent \<and> testCI ''wv'' userAgent))
        in isWebView \<and> supportsNfc androidInfo)"

text \<open>
  The facade keeps the detector's result in a field of type \<open>any\<close> and reads properties
  of it by name. This is the object literal that \<open>getAndroidSupportInfo\<close> returns, as a
  function from property names: a name that the literal does not have reads as
  \<open>undefined\<close>.
\<close>

definition androidInfoProperty :: "AndroidSupportInfo \<Rightarrow> string \<Rightarrow> jsval" where
  "androidInfoProperty info key =
     (if key = ''isAndroid'' then JBool (isAndroid info)
      else if key = ''version'' then (case version info of Some v \<Rightarrow> JNum v | None \<Rightarrow> JNull)
      else if key = ''supportsNfc'' then JBool (supportsNfc info)
      else if key = ''supportsWebNfc'' then JBool (supportsWebNfc info)
      else JUndefined)"

subsection \<open>iOS (ios-detection.ts)\<close>

record IosSupportInfo =
  isIos :: bool
  version :: "rat option"
  supportsNfc :: bool
  requiresNative :: bool

text \<open>
  \<open>/OS (\d+)_(\d+)_?(\d+)?/\<close> anchored at the start of the input. Only the first two
  captures are read; the optional tail \<open>_?(\d+)?\<close> never makes the match fail.
\<close>

definition iosVersionAt :: "string \<Rightarrow> (string \<times> string) option" where
  "iosVersionAt t =
     (if \<not> prefix ''OS '' t then None
      else let r = drop 3 t; major = takeWhile isDigit r in
        if major = [] then None
        else (case dropWhile isDigit r of
                d # r' \<Rightarrow>
                  (if d = CHR ''_'' \<and> takeWhile isDigit r' \<noteq> []
                   then Some (major, takeWhile isDigit r')
                   else None)
              | [] \<Rightarrow> None))"

definition getIosSupportInfo :: "string \<Rightarrow> IosSupportInfo" where
  "getIosSupportInfo userAgent =
     (if \<not> (testCI ''iphone'' userAgent \<or> testCI ''ipad'' userAgent \<or> testCI ''ipod'' userAgent)
      then \<lparr>isIos = False, version = None, supportsNfc = False, requiresNative = False\<rparr>
      else
        let versionMatch = firstMatch iosVersionAt userAgent;
            version = (case versionMatch of
                         Some (major, minor) \<Rightarrow>
                           Some (of_nat (parseInt major) + of_nat (parseInt minor) / 10)
                       | None \<Rightarrow> None);
            supportsNfc = (case version of Some v \<Rightarrow> v \<ge> 11 | None \<Rightarrow> False)
        in \<lparr>isIos = True, version = version, supportsNfc = supportsNfc, requiresNative = True\<rparr>)"

section \<open>The unified data model (definitions.ts)\<close>

datatype NfcErrorType =
  NOT_SUPPORTED | NOT_ENABLED | PERMISSION_DENIED | NO_TAG | TAG_ERROR | IO_ERROR
  | TIMEOUT | CANCELLED | UNEXPECTED_ERROR

text \<open>The values of the enumeration \<open>NfcTnf\<close>.\<close>

definition EMPTY :: nat where "EMPTY = 0"
definition WELL_KNOWN :: nat where "WELL_KNOWN = 1"
definition MIME_MEDIA :: nat where "MIME_MEDIA = 2"
definition ABSOLUTE_URI :: nat where "ABSOLUTE_URI = 3"
definition EXTERNAL_TYPE :: nat where "EXTERNAL_TYPE = 4"

record NdefRecord =
  id :: string
  tnf :: nat
  type :: string
  payload :: "string option"
  languageCode :: "string option"
  uri :: "string option"
  "text" :: "string option"

record NdefMessage =
  records :: "NdefRecord list"

record TagDetectedEvent =
  id :: string
  techTypes :: "string list"
  messages :: "NdefMessage list"

text \<open>
  A value that was thrown, or the reason of a rejected promise. The sources read only the
  properties \<open>message\<close>, \<open>name\<close> and \<open>code\<close> of it; reading a property of
  \<open>null\<close> or \<open>undefined\<close> throws in turn.
\<close>

datatype thrown =
  Nullish
  | Thrown (message: "string option") (name: "string option") (code: "NfcErrorType option")

definition newError :: "string \<Rightarrow> thrown" where
  "newError m = Thrown (Some m) (Some ''Error'') None"

text \<open>What reading a property of \<open>null\<close> or \<open>undefined\<close> throws. The text of the message
  is the engine's, which also names the value and the property; no statement reads it.\<close>

definition typeError :: thrown where
  "typeError = Thrown (Some ''Cannot read properties of undefined'') (Some ''TypeError'') None"

section \<open>The radio backend's record codec (web.ts)\<close>

type_synonym byte = "8 word"

text \<open>A record of a reading event as the browser hands it over: \<open>data\<close> is a view on
  the payload bytes or absent.\<close>

record NDEFRecord =
  recordType :: "string option"
  data :: "byte list option"
  lang :: "string option"

text \<open>The object \<open>recordOptions\<close> that \<open>write\<close> builds for one record.\<close>

record NDEFRecordInit =
  recordType :: string
  data :: string
  lang :: "string option"

record NDEFReadingEvent =
  serialNumber :: "string option"
  message :: "NDEFRecord list option"

definition mapRecordTypeToTnf :: "string option \<Rightarrow> nat" where
  "mapRecordTypeToTnf ty =
     (case ty of
        None \<Rightarrow> 0
      | Some t \<Rightarrow>
          if t = [] then 0
          else if t = ''text'' \<or> t = ''url'' then 1
          else if str_includes t ''/'' then 2
          else if startsWith t ''urn:'' then 3
          else 4)"

text \<open>\<open>b.toString(16).padStart(2, "0")\<close> for a byte, and the whole fallback of the
  payload.\<close>

definition hexDigit :: "nat \<Rightarrow> char" where
  "hexDigit n = ''0123456789abcdef'' ! (n mod 16)"

definition toHex2 :: "byte \<Rightarrow> string" where
  "toHex2 b = [hexDigit (unat b div 16), hexDigit (unat b mod 16)]"

definition hexPayload :: "byte list \<Rightarrow> string" where
  "hexPayload bs = concat (map toHex2 bs)"

text \<open>
  \<open>new Uint8Array(record.data)\<close> for the view on the payload that a reading event holds:
  a view is not a buffer, not a typed array and not iterable, and it has no \<open>length\<close>,
  so the array made of it is empty.
\<close>

definition uint8ArrayOfView :: "byte list \<Rightarrow> byte list" where
  "uint8ArrayOfView d = []"

text \<open>
  The body of the loop of \<open>parseNdefReading\<close>, for one record. The argument \<open>decode\<close>
  is \<open>TextDecoder.decode\<close>, which returns the text or throws. A throw in the branches for
  text and URL records leaves the function; in the last branch it is caught and the payload
  becomes the hexadecimal digits of the array made of the view.
\<close>

definition parseRecord :: "(byte list \<Rightarrow> thrown + string) \<Rightarrow> NDEFRecord \<Rightarrow> thrown + NdefRecord" where
  "parseRecord decode record =
     (let recordType = NDEFRecord.recordType record;
          mk = (\<lambda>p t u.
                 \<lparr>NdefRecord.id = [], tnf = mapRecordTypeToTnf recordType,
                  type = orDefault recordType [], payload = Some p,
                  languageCode = Some (orDefault (NDEFRecord.lang record) ''en''),
                  uri = Some u, text = Some t\<rparr>)
      in case NDEFRecord.data record of
           None \<Rightarrow> Inr (mk [] [] [])
         | Some d \<Rightarrow>
             if recordType = Some ''text'' then
               (case decode d of Inl e \<Rightarrow> Inl e | Inr t \<Rightarrow> Inr (mk t t []))
             else if recordType = Some ''url'' then
               (case decode d of Inl e \<Rightarrow> Inl e | Inr u \<Rightarrow> Inr (mk u [] u))
             else
               (case decode d of
                  Inl e \<Rightarrow> Inr (mk (hexPayload (uint8ArrayOfView d)) [] [])
                | Inr p \<Rightarrow> Inr (mk p [] [])))"

fun parseRecords :: "(byte list \<Rightarrow> thrown + string) \<Rightarrow> NDEFRecord list \<Rightarrow> thrown + NdefRecord list" where
  "parseRecords decode [] = Inr []"
| "parseRecords decode (r # rs) =
     (case parseRecord decode r of
        Inl e \<Rightarrow> Inl e
      | Inr x \<Rightarrow> (case parseRecords decode rs of Inl e \<Rightarrow> Inl e | Inr xs \<Rightarrow> Inr (x # xs)))"

definition parseNdefReading :: "(byte list \<Rightarrow> thrown + string) \<Rightarrow> NDEFReadingEvent \<Rightarrow> thrown + TagDetectedEvent" where
  "parseNdefReading decode event =
     (let serialNumber = orDefault (serialNumber event) [] in
      case NDEFReadingEvent.message event of
        None \<Rightarrow> Inr \<lparr>TagDetectedEvent.id = serialNumber, techTypes = [''ndef''], messages = []\<rparr>
      | Some rs \<Rightarrow>
          (case parseRecords decode rs of
             Inl e \<Rightarrow> Inl e
           | Inr rs' \<Rightarrow>
               Inr \<lparr>TagDetectedEvent.id = serialNumber, techTypes = [''ndef''],
                    messages = (if length rs' > 0 then [\<lparr>records = rs'\<rparr>] else [])\<rparr>))"

text \<open>The function that \<open>write\<close> maps over the records of the message.\<close>

definition writeRecordOptions :: "NdefRecord \<Rightarrow> NDEFRecordInit" where
  "writeRecordOptions record =
     (if type record = ''T'' then
        \<lparr>recordType = ''text'',
         data = orDefault (orElse (payload record) (text record)) [],
         lang = orElse (languageCode record) None\<rparr>
      else if type record = ''U'' then
        \<lparr>recordType = ''url'',
         data = orDefault (orElse (payload record) (uri record)) [],
         lang = None\<rparr>
      else
        \<lparr>recordType = type record, data = orDefault (payload record) [], lang = None\<rparr>)"

text \<open>
  Between a write and a later read stand the browser and the tag, which are not part of the
  repository: the browser stores the string of a written record as bytes, and a reading
  event carries those bytes with the record type and the language. The argument \<open>encode\<close>
  is that encoding of a string.
\<close>

definition stored :: "(string \<Rightarrow> byte list) \<Rightarrow> NDEFRecordInit \<Rightarrow> NDEFRecord" where
  "stored encode init =
     \<lparr>NDEFRecord.recordType = Some (NDEFRecordInit.recordType init),
      NDEFRecord.data = Some (encode (NDEFRecordInit.data init)),
      NDEFRecord.lang = NDEFRecordInit.lang init\<rparr>"

text \<open>
  A \<open>string\<close> is a list of 8-bit characters, so it holds a text as its UTF-8 bytes. On an
  ASCII text the UTF-8 encoder and decoder of the platform keep the bytes, which is all
  these two functions do: the platform's decoder also drops a leading byte order mark and
  puts U+FFFD for ill-formed bytes, and that is not modelled. They stand for the platform
  at ASCII texts only. The decoder is built without the option \<open>fatal\<close> and does not
  throw.
\<close>

definition utf8Encode :: "string \<Rightarrow> byte list" where
  "utf8Encode s = map (\<lambda>c. of_nat (of_char c)) s"

definition utf8Decode :: "byte list \<Rightarrow> thrown + string" where
  "utf8Decode bs = Inr (map (\<lambda>b. char_of (unat b)) bs)"

section \<open>Listeners and their registries\<close>

text \<open>
  A listener is a function of the caller, known by its identity. What a call of it does to
  the rest of the program is the caller's business; what matters here is whether the call
  returns or throws. The facade registers one function of its own with its backend, the
  closure of \<open>monitorNfcStatus\<close>, which calls \<open>notifyListeners\<close> and does not throw.
\<close>

datatype callback = UserFn nat "thrown option" | StatusMonitor

fun throwsOf :: "callback \<Rightarrow> thrown option" where
  "throwsOf (UserFn n t) = t"
| "throwsOf StatusMonitor = None"

datatype eventData = TagData TagDetectedEvent | StatusData bool

type_synonym invocation = "callback \<times> eventData"

text \<open>\<open>for (const listener of ls) listener(d)\<close>: the calls made, in order, and what the
  loop threw. A listener that throws ends the loop.\<close>

fun callListeners :: "callback list \<Rightarrow> eventData \<Rightarrow> invocation list \<times> thrown option" where
  "callListeners [] d = ([], None)"
| "callListeners (l # ls) d =
     (case throwsOf l of
        Some e \<Rightarrow> ([(l, d)], Some e)
      | None \<Rightarrow> (let (calls, e) = callListeners ls d in ((l, d) # calls, e)))"

text \<open>The field \<open>listeners\<close> of the three backends: an object from event names to arrays.\<close>

type_synonym registry = "string \<Rightarrow> callback list option"

text \<open>\<open>this.listeners[eventName] || []\<close>.\<close>

definition listenersFor :: "registry \<Rightarrow> string \<Rightarrow> callback list" where
  "listenersFor ls eventName = (case ls eventName of Some fs \<Rightarrow> fs | None \<Rightarrow> [])"

text \<open>The bodies of \<open>addListener\<close> and \<open>removeListener\<close>, which the three backends
  share word for word.\<close>

definition pushListener :: "registry \<Rightarrow> string \<Rightarrow> callback \<Rightarrow> registry" where
  "pushListener ls eventName listenerFunc =
     (let ls' = (if ls eventName = None then ls(eventName \<mapsto> []) else ls)
      in ls'(eventName \<mapsto> listenersFor ls' eventName @ [listenerFunc]))"

definition removeListener :: "registry \<Rightarrow> string \<Rightarrow> callback \<Rightarrow> registry" where
  "removeListener ls eventName listenerFunc =
     (case ls eventName of
        Some fs \<Rightarrow> ls(eventName \<mapsto> filter (\<lambda>listener. listener \<noteq> listenerFunc) fs)
      | None \<Rightarrow> ls)"

text \<open>A handle is a closure over the event name and the function it was made for.\<close>

datatype PluginListenerHandle = Handle string callback

record IsEnabledResult =
  enabled :: bool

record StartScanSessionOptions =
  once :: "bool option"
  scanSoundEnabled :: "bool option"
  alertMessageEnabled :: "bool option"

section \<open>The radio backend (web.ts)\<close>

text \<open>The reader object of the browser; \<open>abort\<close> tells whether it has a property of
  that name.\<close>

record NDEFReader =
  abort :: bool

record WebNfc =
  scanSessionActive :: bool
  scanOnce :: bool
  listeners :: registry
  ndefReader :: "NDEFReader option"
  nfcSupported :: bool
  iosInfo :: IosSupportInfo

text \<open>
  The constructor, which is \<open>detectNfcSupport\<close>. Its inputs are the user agent and whether
  \<open>window\<close> has the property \<open>NDEFReader\<close>; the code runs in a browser, so \<open>window\<close>
  is defined.
\<close>

definition WebNfc_new :: "string \<Rightarrow> bool \<Rightarrow> WebNfc" where
  "WebNfc_new userAgent readerInWindow =
     (let info = getIosSupportInfo userAgent in
      \<lparr>scanSessionActive = False, scanOnce = False, listeners = Map.empty, ndefReader = None,
       nfcSupported = (if isIos info then False else readerInWindow),
       iosInfo = info\<rparr>)"

definition createCompatibilityError :: "WebNfc \<Rightarrow> thrown" where
  "createCompatibilityError w =
     (if isIos (WebNfc.iosInfo w)
      then newError (''iOS browsers don't support the Web NFC API. ''
                     @ ''To use NFC on iOS, you need a native app implementation.'')
      else newError (''Web NFC API is not supported in this browser. ''
                     @ ''NFC Web API requires Chrome 89+ on Android with NFC hardware, ''
                     @ ''running over HTTPS.''))"

definition web_isEnabled :: "WebNfc \<Rightarrow> thrown + IsEnabledResult" where
  "web_isEnabled w =
     (if isIos (WebNfc.iosInfo w) then Inr \<lparr>enabled = False\<rparr>
      else Inr \<lparr>enabled = nfcSupported w\<rparr>)"

text \<open>
  \<open>stopScanSession\<close>. The argument is what a call of \<open>abort\<close> does when the reader has
  one: \<open>None\<close> when it returns, the thrown value otherwise. The call stands in a
  \<open>try\<close> whose \<open>catch\<close> only logs.
\<close>

definition web_stopScanSession :: "WebNfc \<Rightarrow> thrown option \<Rightarrow> (thrown + unit) \<times> WebNfc" where
  "web_stopScanSession w abortResult =
     (let w' = w\<lparr>scanSessionActive := False\<rparr> in
      case ndefReader w' of
        None \<Rightarrow> (Inr (), w')
      | Some reader \<Rightarrow>
          (if abort reader
           then (case abortResult of None \<Rightarrow> (Inr (), w') | Some e \<Rightarrow> (Inr (), w'))
           else (Inr (), w')))"

text \<open>The \<open>catch\<close> of \<open>startScanSession\<close>: the error it throws for the error it caught.
  Reading \<open>error.name\<close> of \<open>null\<close> or \<open>undefined\<close> throws there.\<close>

definition startScanFailure :: "thrown \<Rightarrow> thrown" where
  "startScanFailure error =
     (case error of
        Nullish \<Rightarrow> typeError
      | Thrown m n c \<Rightarrow>
          if n = Some ''NotAllowedError''
          then newError ''NFC permission denied. Please allow NFC scanning when prompted.''
          else if n = Some ''NotSupportedError''
          then newError ''NFC is not supported on this device or browser.''
          else newError (''Failed to start NFC scan: '' @ orDefault m ''Unknown error''))"

text \<open>
  \<open>startScanSession\<close>. The arguments after the options are what \<open>new NDEFReader()\<close>
  gives, a reader or a thrown value, and how the promise of \<open>scan()\<close> settles, \<open>None\<close>
  for resolved and the reason for rejected.
\<close>

definition web_startScanSession ::
    "WebNfc \<Rightarrow> StartScanSessionOptions option \<Rightarrow> thrown + NDEFReader \<Rightarrow> thrown option
     \<Rightarrow> (thrown + unit) \<times> WebNfc" where
  "web_startScanSession w options constructed scanResult =
     (if isIos (WebNfc.iosInfo w)
      then (Inl (newError (''NFC reading is not supported in web browsers on iOS. ''
                           @ ''To use NFC on iOS, you need a native app implementation.'')), w)
      else if \<not> nfcSupported w then (Inl (createCompatibilityError w), w)
      else
        let w1 = w\<lparr>scanSessionActive := True,
                   scanOnce := (case options of
                                  None \<Rightarrow> False
                                | Some opts \<Rightarrow> (case once opts of None \<Rightarrow> False | Some b \<Rightarrow> b))\<rparr>
        in case constructed of
             Inl e \<Rightarrow> (Inl (startScanFailure e), w1\<lparr>scanSessionActive := False\<rparr>)
           | Inr reader \<Rightarrow>
               (let w2 = w1\<lparr>ndefReader := Some reader\<rparr> in
                case scanResult of
                  Some e \<Rightarrow> (Inl (startScanFailure e), w2\<lparr>scanSessionActive := False\<rparr>)
                | None \<Rightarrow> (Inr (), w2)))"

text \<open>
  The handler of the event \<open>reading\<close> that \<open>startScanSession\<close> puts on each reader it
  makes. It reads and writes the fields of the backend, so it is the same function for
  every reader. It gives the calls of listeners it made and the state it leaves. The call
  of \<open>stopScanSession\<close> comes after the loop over the listeners and inside the same
  \<open>try\<close>, so a listener that throws skips it.
\<close>

definition web_onReading ::
    "(byte list \<Rightarrow> thrown + string) \<Rightarrow> WebNfc \<Rightarrow> NDEFReadingEvent \<Rightarrow> thrown option
     \<Rightarrow> invocation list \<times> WebNfc" where
  "web_onReading decode w event abortResult =
     (if \<not> scanSessionActive w then ([], w)
      else case parseNdefReading decode event of
             Inl e \<Rightarrow> ([], w)
           | Inr tag \<Rightarrow>
               (let tagListeners = listenersFor (WebNfc.listeners w) ''tagDetected'';
                    (calls, e) = callListeners tagListeners (TagData tag)
                in case e of
                     Some err \<Rightarrow> (calls, w)
                   | None \<Rightarrow>
                       if scanOnce w then (calls, snd (web_stopScanSession w abortResult))
                       else (calls, w)))"

definition web_addListener :: "WebNfc \<Rightarrow> string \<Rightarrow> callback \<Rightarrow> PluginListenerHandle \<times> WebNfc" where
  "web_addListener w eventName listenerFunc =
     (Handle eventName listenerFunc,
      w\<lparr>WebNfc.listeners := pushListener (WebNfc.listeners w) eventName listenerFunc\<rparr>)"

fun web_remove :: "WebNfc \<Rightarrow> PluginListenerHandle \<Rightarrow> (thrown + unit) \<times> WebNfc" where
  "web_remove w (Handle eventName listenerFunc) =
     (Inr (), w\<lparr>WebNfc.listeners := removeListener (WebNfc.listeners w) eventName listenerFunc\<rparr>)"

definition web_removeAllListeners :: "WebNfc \<Rightarrow> (thrown + unit) \<times> WebNfc" where
  "web_removeAllListeners w = (Inr (), w\<lparr>WebNfc.listeners := Map.empty\<rparr>)"

section \<open>The bridge backends (ios-bridge.ts, android-bridge.ts)\<close>

text \<open>What a global slot of \<open>window\<close> holds.\<close>

datatype 'a slot = SlotUndefined | SlotNull | SlotObject 'a

text \<open>
  The object a host injects. Every function of it is optional; a field tells whether the
  function is there. What a call of one of them does is an argument of the operation that
  makes the call.
\<close>

record NativeIosBridge =
  isNfcEnabled :: bool
  startNfcScan :: bool
  stopNfcScan :: bool
  writeNfcTag :: bool
  openSettings :: bool

record NativeAndroidBridge =
  isNfcEnabled :: bool
  startNfcScan :: bool
  stopNfcScan :: bool
  writeNfcTag :: bool
  makeNfcTagReadOnly :: bool
  formatNfcTag :: bool
  eraseNfcTag :: bool
  shareNfcData :: bool
  stopNfcSharing :: bool
  openNfcSettings :: bool

text \<open>The data of a message event: not an object, or an object with the properties
  \<open>type\<close>, \<open>tag\<close> and \<open>enabled\<close> that the handlers read.\<close>

datatype MessageData =
  NotAnObject
  | DataObject (msgType: "string option") (msgTag: "TagDetectedEvent option") (msgEnabled: jsval)

text \<open>\<open>handleNativeMessage\<close>, the same in both bridges, on the registry of the
  backend.\<close>

definition handleNativeMessage :: "registry \<Rightarrow> MessageData \<Rightarrow> invocation list \<times> thrown option" where
  "handleNativeMessage ls d =
     (case d of
        NotAnObject \<Rightarrow> ([], None)
      | DataObject ty tg en \<Rightarrow>
          (let (calls1, e1) =
                 (case tg of
                    Some t \<Rightarrow>
                      if ty = Some ''nfcTagDetected''
                      then callListeners (listenersFor ls ''tagDetected'') (TagData t)
                      else ([], None)
                  | None \<Rightarrow> ([], None))
           in case e1 of
                Some e \<Rightarrow> (calls1, Some e)
              | None \<Rightarrow>
                  if ty = Some ''nfcStatusChanged'' \<and> en \<noteq> JUndefined
                  then (let (calls2, e2) =
                              callListeners (listenersFor ls ''nfcStatusChanged'')
                                (StatusData (truthy en))
                        in (calls1 @ calls2, e2))
                  else (calls1, None)))"

subsection \<open>iOS\<close>

record IosBridgeNfc =
  bridge :: NativeIosBridge
  listeners :: registry
  isBridgeAvailable :: bool

definition IosBridgeNfc_new :: "NativeIosBridge slot \<Rightarrow> IosBridgeNfc" where
  "IosBridgeNfc_new nativeNfcBridge =
     (let b = (case nativeNfcBridge of
                 SlotObject obj \<Rightarrow> obj
               | _ \<Rightarrow> \<lparr>NativeIosBridge.isNfcEnabled = False, NativeIosBridge.startNfcScan = False,
                        NativeIosBridge.stopNfcScan = False, NativeIosBridge.writeNfcTag = False,
                        openSettings = False\<rparr>)
      in \<lparr>bridge = b, listeners = Map.empty,
          isBridgeAvailable = (NativeIosBridge.isNfcEnabled b \<and> NativeIosBridge.startNfcScan b)\<rparr>)"

text \<open>The second argument is how the promise of \<open>bridge.isNfcEnabled()\<close> settles.\<close>

definition ios_isEnabled :: "IosBridgeNfc \<Rightarrow> thrown + bool \<Rightarrow> thrown + IsEnabledResult" where
  "ios_isEnabled s answer =
     (if \<not> IosBridgeNfc.isBridgeAvailable s then Inr \<lparr>enabled = False\<rparr>
      else case answer of
             Inr b \<Rightarrow> Inr \<lparr>enabled = b\<rparr>
           | Inl e \<Rightarrow> Inr \<lparr>enabled = False\<rparr>)"

text \<open>The last argument is how the promise of \<open>bridge.startNfcScan(...)\<close> settles.\<close>

definition ios_startScanSession ::
    "IosBridgeNfc \<Rightarrow> StartScanSessionOptions option \<Rightarrow> thrown option
     \<Rightarrow> (thrown + unit) \<times> IosBridgeNfc" where
  "ios_startScanSession s options answer =
     (if \<not> IosBridgeNfc.isBridgeAvailable s
      then (Inl (newError ''NFC scan cannot be started - bridge not available''), s)
      else case answer of
             None \<Rightarrow> (Inr (), s)
           | Some e \<Rightarrow> (Inl e, s))"

text \<open>The second argument is how the promise of \<open>bridge.stopNfcScan()\<close> settles.\<close>

definition ios_stopScanSession :: "IosBridgeNfc \<Rightarrow> thrown option \<Rightarrow> (thrown + unit) \<times> IosBridgeNfc" where
  "ios_stopScanSession s answer =
     (if \<not> IosBridgeNfc.isBridgeAvailable s \<or> \<not> NativeIosBridge.stopNfcScan (IosBridgeNfc.bridge s)
      then (Inr (), s)
      else case answer of
             None \<Rightarrow> (Inr (), s)
           | Some e \<Rightarrow> (Inr (), s))"

definition ios_addListener :: "IosBridgeNfc \<Rightarrow> string \<Rightarrow> callback \<Rightarrow> PluginListenerHandle \<times> IosBridgeNfc" where
  "ios_addListener s eventName listenerFunc =
     (Handle eventName listenerFunc,
      s\<lparr>IosBridgeNfc.listeners := pushListener (IosBridgeNfc.listeners s) eventName listenerFunc\<rparr>)"

fun ios_remove :: "IosBridgeNfc \<Rightarrow> PluginListenerHandle \<Rightarrow> (thrown + unit) \<times> IosBridgeNfc" where
  "ios_remove s (Handle eventName listenerFunc) =
     (Inr (), s\<lparr>IosBridgeNfc.listeners :=
                  removeListener (IosBridgeNfc.listeners s) eventName listenerFunc\<rparr>)"

definition ios_removeAllListeners :: "IosBridgeNfc \<Rightarrow> (thrown + unit) \<times> IosBridgeNfc" where
  "ios_removeAllListeners s = (Inr (), s\<lparr>IosBridgeNfc.listeners := Map.empty\<rparr>)"

text \<open>A message event on \<open>window\<close>: the constructor subscribes the handler only when the
  bridge is available.\<close>

definition ios_onMessage :: "IosBridgeNfc \<Rightarrow> MessageData \<Rightarrow> invocation list \<times> thrown option" where
  "ios_onMessage s d =
     (if IosBridgeNfc.isBridgeAvailable s then handleNativeMessage (IosBridgeNfc.listeners s) d
      else ([], None))"

subsection \<open>Android\<close>

record AndroidBridgeNfc =
  bridge :: NativeAndroidBridge
  listeners :: registry
  isBridgeAvailable :: bool

definition AndroidBridgeNfc_new :: "NativeAndroidBridge slot \<Rightarrow> AndroidBridgeNfc" where
  "AndroidBridgeNfc_new nativeAndroidNfcBridge =
     (let b = (case nativeAndroidNfcBridge of
                 SlotObject obj \<Rightarrow> obj
               | _ \<Rightarrow> \<lparr>NativeAndroidBridge.isNfcEnabled = False,
                        NativeAndroidBridge.startNfcScan = False,
                        NativeAndroidBridge.stopNfcScan = False,
                        NativeAndroidBridge.writeNfcTag = False,
                        makeNfcTagReadOnly = False, formatNfcTag = False, eraseNfcTag = False,
                        shareNfcData = False, stopNfcSharing = False, openNfcSettings = False\<rparr>)
      in \<lparr>bridge = b, listeners = Map.empty,
          isBridgeAvailable =
            (NativeAndroidBridge.isNfcEnabled b \<and> NativeAndroidBridge.startNfcScan b)\<rparr>)"

definition android_isEnabled :: "AndroidBridgeNfc \<Rightarrow> thrown + bool \<Rightarrow> thrown + IsEnabledResult" where
  "android_isEnabled s answer =
     (if \<not> AndroidBridgeNfc.isBridgeAvailable s then Inr \<lparr>enabled = False\<rparr>
      else case answer of
             Inr b \<Rightarrow> Inr \<lparr>enabled = b\<rparr>
           | Inl e \<Rightarrow> Inr \<lparr>enabled = False\<rparr>)"

definition android_startScanSession ::
    "AndroidBridgeNfc \<Rightarrow> StartScanSessionOptions option \<Rightarrow> thrown option
     \<Rightarrow> (thrown + unit) \<times> AndroidBridgeNfc" where
  "android_startScanSession s options answer =
     (if \<not> AndroidBridgeNfc.isBridgeAvailable s
      then (Inl (newError ''NFC scan cannot be started - bridge not available''), s)
      else case answer of
             None \<Rightarrow> (Inr (), s)
           | Some e \<Rightarrow> (Inl e, s))"

definition android_stopScanSession ::
    "AndroidBridgeNfc \<Rightarrow> thrown option \<Rightarrow> (thrown + unit) \<times> AndroidBridgeNfc" where
  "android_stopScanSession s answer =
     (if \<not> AndroidBridgeNfc.isBridgeAvailable s
         \<or> \<not> NativeAndroidBridge.stopNfcScan (AndroidBridgeNfc.bridge s)
      then (Inr (), s)
      else case answer of
             None \<Rightarrow> (Inr (), s)
           | Some e \<Rightarrow> (Inr (), s))"

definition android_addListener ::
    "AndroidBridgeNfc \<Rightarrow> string \<Rightarrow> callback \<Rightarrow> PluginListenerHandle \<times> AndroidBridgeNfc" where
  "android_addListener s eventName listenerFunc =
     (Handle eventName listenerFunc,
      s\<lparr>AndroidBridgeNfc.listeners :=
           pushListener (AndroidBridgeNfc.listeners s) eventName listenerFunc\<rparr>)"

fun android_remove :: "AndroidBridgeNfc \<Rightarrow> PluginListenerHandle \<Rightarrow> (thrown + unit) \<times> AndroidBridgeNfc" where
  "android_remove s (Handle eventName listenerFunc) =
     (Inr (), s\<lparr>AndroidBridgeNfc.listeners :=
                  removeListener (AndroidBridgeNfc.listeners s) eventName listenerFunc\<rparr>)"

definition android_removeAllListeners :: "AndroidBridgeNfc \<Rightarrow> (thrown + unit) \<times> AndroidBridgeNfc" where
  "android_removeAllListeners s = (Inr (), s\<lparr>AndroidBridgeNfc.listeners := Map.empty\<rparr>)"

definition android_onMessage :: "AndroidBridgeNfc \<Rightarrow> MessageData \<Rightarrow> invocation list \<times> thrown option" where
  "android_onMessage s d =
     (if AndroidBridgeNfc.isBridgeAvailable s
      then handleNativeMessage (AndroidBridgeNfc.listeners s) d
      else ([], None))"

section \<open>The facade (nfc.ts)\<close>

text \<open>What the constructors read of the environment: the user agent, whether \<open>window\<close>
  has the reader constructor, and the two global slots for the bridges.\<close>

record Window =
  userAgent :: string
  readerInWindow :: bool
  nativeNfcBridge :: "NativeIosBridge slot"
  nativeAndroidNfcBridge :: "NativeAndroidBridge slot"

datatype NfcPlugin = Web WebNfc | Ios IosBridgeNfc | Android AndroidBridgeNfc

text \<open>The calls of the interface \<open>NfcPlugin\<close>, which go to the class of the object.\<close>

fun plugin_listeners :: "NfcPlugin \<Rightarrow> registry" where
  "plugin_listeners (Web w) = WebNfc.listeners w"
| "plugin_listeners (Ios s) = IosBridgeNfc.listeners s"
| "plugin_listeners (Android s) = AndroidBridgeNfc.listeners s"

fun plugin_isEnabled :: "NfcPlugin \<Rightarrow> thrown + bool \<Rightarrow> thrown + IsEnabledResult" where
  "plugin_isEnabled (Web w) answer = web_isEnabled w"
| "plugin_isEnabled (Ios s) answer = ios_isEnabled s answer"
| "plugin_isEnabled (Android s) answer = android_isEnabled s answer"

fun plugin_startScanSession ::
    "NfcPlugin \<Rightarrow> StartScanSessionOptions option \<Rightarrow> thrown + NDEFReader \<Rightarrow> thrown option
     \<Rightarrow> (thrown + unit) \<times> NfcPlugin" where
  "plugin_startScanSession (Web w) options constructed answer =
     (let (r, w') = web_startScanSession w options constructed answer in (r, Web w'))"
| "plugin_startScanSession (Ios s) options constructed answer =
     (let (r, s') = ios_startScanSession s options answer in (r, Ios s'))"
| "plugin_startScanSession (Android s) options constructed answer =
     (let (r, s') = android_startScanSession s options answer in (r, Android s'))"

fun plugin_stopScanSession :: "NfcPlugin \<Rightarrow> thrown option \<Rightarrow> (thrown + unit) \<times> NfcPlugin" where
  "plugin_stopScanSession (Web w) answer =
     (let (r, w') = web_stopScanSession w answer in (r, Web w'))"
| "plugin_stopScanSession (Ios s) answer =
     (let (r, s') = ios_stopScanSession s answer in (r, Ios s'))"
| "plugin_stopScanSession (Android s) answer =
     (let (r, s') = android_stopScanSession s answer in (r, Android s'))"

fun plugin_addListener :: "NfcPlugin \<Rightarrow> string \<Rightarrow> callback \<Rightarrow> PluginListenerHandle \<times> NfcPlugin" where
  "plugin_addListener (Web w) eventName f =
     (let (h, w') = web_addListener w eventName f in (h, Web w'))"
| "plugin_addListener (Ios s) eventName f =
     (let (h, s') = ios_addListener s eventName f in (h, Ios s'))"
| "plugin_addListener (Android s) eventName f =
     (let (h, s') = android_addListener s eventName f in (h, Android s'))"

fun plugin_remove :: "NfcPlugin \<Rightarrow> PluginListenerHandle \<Rightarrow> (thrown + unit) \<times> NfcPlugin" where
  "plugin_remove (Web w) h = (let (r, w') = web_remove w h in (r, Web w'))"
| "plugin_remove (Ios s) h = (let (r, s') = ios_remove s h in (r, Ios s'))"
| "plugin_remove (Android s) h = (let (r, s') = android_remove s h in (r, Android s'))"

fun plugin_removeAllListeners :: "NfcPlugin \<Rightarrow> (thrown + unit) \<times> NfcPlugin" where
  "plugin_removeAllListeners (Web w) = (let (r, w') = web_removeAllListeners w in (r, Web w'))"
| "plugin_removeAllListeners (Ios s) = (let (r, s') = ios_removeAllListeners s in (r, Ios s'))"
| "plugin_removeAllListeners (Android s) =
     (let (r, s') = android_removeAllListeners s in (r, Android s'))"

text \<open>
  The facade. Its registry is a \<open>Map\<close> from event names to a \<open>Set\<close> of functions; a set
  is held as the list of its members in the order they came in, which is the order the
  loop of \<open>notifyListeners\<close> visits them in.
\<close>

record Nfc =
  implementation :: NfcPlugin
  listeners :: registry
  iosInfo :: IosSupportInfo
  androidInfo :: AndroidSupportInfo

definition setAdd :: "callback list \<Rightarrow> callback \<Rightarrow> callback list" where
  "setAdd fs f = (if f \<in> set fs then fs else fs @ [f])"

definition setDelete :: "callback list \<Rightarrow> callback \<Rightarrow> callback list" where
  "setDelete fs f = removeAll f fs"

definition monitorNfcStatus :: "Nfc \<Rightarrow> Nfc" where
  "monitorNfcStatus fac =
     fac\<lparr>implementation :=
           snd (plugin_addListener (implementation fac) ''nfcStatusChanged'' StatusMonitor)\<rparr>"

text \<open>
  The constructor. The second test reads the properties \<open>isAndroid\<close> and
  \<open>useNativeBridge\<close> of the object that \<open>getAndroidSupportInfo\<close> returned.
\<close>

definition Nfc_new :: "Window \<Rightarrow> Nfc" where
  "Nfc_new win =
     (let ios = getIosSupportInfo (userAgent win);
          android = getAndroidSupportInfo (userAgent win);
          impl =
            (if isIos ios \<and> nativeNfcBridge win \<noteq> SlotUndefined
             then Ios (IosBridgeNfc_new (nativeNfcBridge win))
             else if truthy (androidInfoProperty android ''isAndroid'')
                     \<and> truthy (androidInfoProperty android ''useNativeBridge'')
             then Android (AndroidBridgeNfc_new (nativeAndroidNfcBridge win))
             else Web (WebNfc_new (userAgent win) (readerInWindow win)))
      in monitorNfcStatus
           \<lparr>implementation = impl, listeners = Map.empty, iosInfo = ios, androidInfo = android\<rparr>)"

text \<open>\<open>notifyListeners\<close>: every member of the set is called, each in its own \<open>try\<close>.\<close>

definition notifyListeners :: "Nfc \<Rightarrow> string \<Rightarrow> eventData \<Rightarrow> invocation list" where
  "notifyListeners fac eventName d =
     (case Nfc.listeners fac eventName of
        Some fs \<Rightarrow> map (\<lambda>listener. (listener, d)) fs
      | None \<Rightarrow> [])"

definition Nfc_isEnabled :: "Nfc \<Rightarrow> thrown + bool \<Rightarrow> thrown + IsEnabledResult" where
  "Nfc_isEnabled fac answer =
     (case plugin_isEnabled (implementation fac) answer of
        Inr r \<Rightarrow> Inr r
      | Inl error \<Rightarrow> Inr \<lparr>enabled = False\<rparr>)"

text \<open>\<open>error.message?.includes(p)\<close>.\<close>

definition messageIncludes :: "string option \<Rightarrow> string \<Rightarrow> bool" where
  "messageIncludes m p = (case m of Some s \<Rightarrow> str_includes s p | None \<Rightarrow> False)"

text \<open>The \<open>catch\<close> of the facade's \<open>startScanSession\<close>: the error it throws for the error
  it caught. Reading \<open>error.message\<close> of \<open>null\<close> or \<open>undefined\<close> throws there.\<close>

definition standardizedError :: "thrown \<Rightarrow> thrown" where
  "standardizedError error =
     (case error of
        Nullish \<Rightarrow> typeError
      | Thrown m n c \<Rightarrow>
          Thrown (Some (orDefault m ''Failed to start NFC scan'')) (Some ''Error'')
            (Some (if messageIncludes m ''not supported'' \<or> n = Some ''NotSupportedError''
                   then NOT_SUPPORTED
                   else if messageIncludes m ''permission'' \<or> n = Some ''NotAllowedError''
                   then PERMISSION_DENIED
                   else if messageIncludes m ''not enabled'' then NOT_ENABLED
                   else UNEXPECTED_ERROR)))"

definition Nfc_startScanSession ::
    "Nfc \<Rightarrow> StartScanSessionOptions option \<Rightarrow> thrown + NDEFReader \<Rightarrow> thrown option
     \<Rightarrow> (thrown + unit) \<times> Nfc" where
  "Nfc_startScanSession fac options constructed answer =
     (let (r, impl') = plugin_startScanSession (implementation fac) options constructed answer;
          fac' = fac\<lparr>implementation := impl'\<rparr>
      in case r of
           Inr u \<Rightarrow> (Inr u, fac')
         | Inl error \<Rightarrow> (Inl (standardizedError error), fac'))"

definition Nfc_stopScanSession :: "Nfc \<Rightarrow> thrown option \<Rightarrow> (thrown + unit) \<times> Nfc" where
  "Nfc_stopScanSession fac answer =
     (let (r, impl') = plugin_stopScanSession (implementation fac) answer
      in (r, fac\<lparr>implementation := impl'\<rparr>))"

text \<open>The handle of the facade is a closure over the event name, the function and the
  handle of the backend.\<close>

datatype NfcListenerHandle = NfcHandle string callback PluginListenerHandle

definition Nfc_addListener :: "Nfc \<Rightarrow> string \<Rightarrow> callback \<Rightarrow> NfcListenerHandle \<times> Nfc" where
  "Nfc_addListener fac eventName listenerFunc =
     (let ls = (if Nfc.listeners fac eventName = None
                then (Nfc.listeners fac)(eventName \<mapsto> [])
                else Nfc.listeners fac);
          ls' = (case ls eventName of
                   Some fs \<Rightarrow> ls(eventName \<mapsto> setAdd fs listenerFunc)
                 | None \<Rightarrow> ls);
          (h, impl') = plugin_addListener (implementation fac) eventName listenerFunc
      in (NfcHandle eventName listenerFunc h,
          fac\<lparr>Nfc.listeners := ls', implementation := impl'\<rparr>))"

fun Nfc_remove :: "Nfc \<Rightarrow> NfcListenerHandle \<Rightarrow> (thrown + unit) \<times> Nfc" where
  "Nfc_remove fac (NfcHandle eventName listenerFunc h) =
     (let ls' = (case Nfc.listeners fac eventName of
                   Some fs \<Rightarrow> (Nfc.listeners fac)(eventName \<mapsto> setDelete fs listenerFunc)
                 | None \<Rightarrow> Nfc.listeners fac);
          (r, impl') = plugin_remove (implementation fac) h
      in (r, fac\<lparr>Nfc.listeners := ls', implementation := impl'\<rparr>))"

definition Nfc_removeAllListeners :: "Nfc \<Rightarrow> (thrown + unit) \<times> Nfc" where
  "Nfc_removeAllListeners fac =
     (let (r, impl') = plugin_removeAllListeners (implementation fac)
      in (r, fac\<lparr>Nfc.listeners := Map.empty, implementation := impl'\<rparr>))"

text \<open>
  An event that the platform delivers: a reading event of a reader of the radio backend,
  with what \<open>abort\<close> would do, or a message event on \<open>window\<close>. The calls that the
  backend makes are those of its handler; where it calls the closure of
  \<open>monitorNfcStatus\<close>, the calls of \<open>notifyListeners\<close> follow.
\<close>

datatype delivery = Reading NDEFReadingEvent "thrown option" | Message MessageData

definition throughFacade :: "Nfc \<Rightarrow> invocation list \<Rightarrow> invocation list" where
  "throughFacade fac calls =
     concat (map (\<lambda>(cb, d). case cb of
                               StatusMonitor \<Rightarrow>
                                 (StatusMonitor, d) # notifyListeners fac ''nfcStatusChanged'' d
                             | UserFn n t \<Rightarrow> [(cb, d)]) calls)"

fun plugin_deliver ::
    "(byte list \<Rightarrow> thrown + string) \<Rightarrow> NfcPlugin \<Rightarrow> delivery \<Rightarrow> invocation list \<times> NfcPlugin" where
  "plugin_deliver decode (Web w) (Reading event abortResult) =
     (let (calls, w') = web_onReading decode w event abortResult in (calls, Web w'))"
| "plugin_deliver decode (Ios s) (Message d) = (fst (ios_onMessage s d), Ios s)"
| "plugin_deliver decode (Android s) (Message d) = (fst (android_onMessage s d), Android s)"
| "plugin_deliver decode p dl = ([], p)"

definition Nfc_deliver ::
    "(byte list \<Rightarrow> thrown + string) \<Rightarrow> Nfc \<Rightarrow> delivery \<Rightarrow> invocation list \<times> Nfc" where
  "Nfc_deliver decode fac dl =
     (let (calls, impl') = plugin_deliver decode (implementation fac) dl
      in (throughFacade fac calls, fac\<lparr>implementation := impl'\<rparr>))"

text \<open>The name of the event that a delivery is about, as the listeners are registered
  for it.\<close>

fun deliveryName :: "delivery \<Rightarrow> string option" where
  "deliveryName (Reading event abortResult) = Some ''tagDetected''"
| "deliveryName (Message NotAnObject) = None"
| "deliveryName (Message (DataObject ty tg en)) =
     (if ty = Some ''nfcTagDetected'' then Some ''tagDetected''
      else if ty = Some ''nfcStatusChanged'' then Some ''nfcStatusChanged''
      else None)"

text \<open>
  The closure of \<open>monitorNfcStatus\<close> is private to the facade: the constructor registers
  it for \<open>nfcStatusChanged\<close>, and a caller has no name for it to register it for tags.
\<close>

definition monitorForStatusOnly :: "Nfc \<Rightarrow> bool" where
  "monitorForStatusOnly fac =
     (StatusMonitor \<notin> set (listenersFor (plugin_listeners (implementation fac)) ''tagDetected''))"

section \<open>Properties of the capability detectors\<close>

lemma firstMatch_skip: "noMatchBefore m p s \<Longrightarrow> firstMatch m (p @ s) = firstMatch m s"
  by (induction p) simp_all

lemma firstMatch_here: "m s = Some r \<Longrightarrow> firstMatch m s = Some r"
  by (cases s) simp_all

lemma str_includes_here: "prefix pat t \<Longrightarrow> str_includes t pat"
  by (cases t) simp_all

lemma str_includes_skip: "str_includes t pat \<Longrightarrow> str_includes (xs @ t) pat"
  by (induction xs) simp_all

lemma isDigit_simps:
  "isDigit CHR ''1''" "isDigit CHR ''2''" "isDigit CHR ''4''"
  "\<not> isDigit CHR ''.''" "\<not> isDigit CHR ''_''"
  by (simp_all add: isDigit_def)

lemma takeWhile_stop: "s = [] \<or> \<not> P (hd s) \<Longrightarrow> takeWhile P s = []"
  by (cases s) auto

lemma androidVersionAt_14_2:
  assumes "s = [] \<or> \<not> isDigit (hd s)"
  shows "androidVersionAt (''Android 14.2'' @ s) = Some (''14'', Some ''2'')"
  using takeWhile_stop [of s isDigit, OF assms]
  by (simp add: androidVersionAt_def isDigit_simps)

lemma iosVersionAt_14_2_1: "iosVersionAt (''OS 14_2_1'' @ s) = Some (''14'', ''2'')"
  by (simp add: iosVersionAt_def isDigit_simps)

lemma parseInt_14: "parseInt ''14'' = 14"
  by (simp add: parseInt_def digitVal_def)

lemma parseInt_2: "parseInt ''2'' = 2"
  by (simp add: parseInt_def digitVal_def)

lemma testCI_android: "testCI ''android'' (p @ ''Android 14.2'' @ s)"
  unfolding testCI_def map_append
  by (rule str_includes_skip, rule str_includes_here) (simp add: toLowerAscii_def)

text \<open>
  C9. Version parsing. When the first version token of the user agent is \<open>Android 14.2\<close>
  (no earlier position matches, and no further digit follows), the Android detector's
  version is 14.2, that is major + minor / 10. When the user agent of an iOS device has
  \<open>OS 14_2_1\<close> as its first version token, the iOS detector's version is 14.2 by the same
  rule. A user agent with the platform token and no match of the version expression gives
  the version \<open>null\<close> and \<open>supportsNfc = false\<close>, for both detectors.
\<close>

theorem version_parsing:
  "(noMatchBefore androidVersionAt p (''Android 14.2'' @ s) \<and> (s = [] \<or> \<not> isDigit (hd s))
      \<longrightarrow> AndroidSupportInfo.version (getAndroidSupportInfo (p @ ''Android 14.2'' @ s))
            = Some (142 / 10))
   \<and> (isIos (getIosSupportInfo (q @ ''OS 14_2_1'' @ t))
        \<and> noMatchBefore iosVersionAt q (''OS 14_2_1'' @ t)
      \<longrightarrow> IosSupportInfo.version (getIosSupportInfo (q @ ''OS 14_2_1'' @ t)) = Some (142 / 10))
   \<and> (isAndroid (getAndroidSupportInfo ua) \<and> firstMatch androidVersionAt ua = None
      \<longrightarrow> AndroidSupportInfo.version (getAndroidSupportInfo ua) = None
          \<and> \<not> AndroidSupportInfo.supportsNfc (getAndroidSupportInfo ua))
   \<and> (isIos (getIosSupportInfo ua') \<and> firstMatch iosVersionAt ua' = None
      \<longrightarrow> IosSupportInfo.version (getIosSupportInfo ua') = None
          \<and> \<not> IosSupportInfo.supportsNfc (getIosSupportInfo ua'))"
proof (intro conjI impI)
  assume h: "noMatchBefore androidVersionAt p (''Android 14.2'' @ s) \<and> (s = [] \<or> \<not> isDigit (hd s))"
  from h have "androidVersionAt (''Android 14.2'' @ s) = Some (''14'', Some ''2'')"
    by (intro androidVersionAt_14_2) simp
  then have "firstMatch androidVersionAt (''Android 14.2'' @ s) = Some (''14'', Some ''2'')"
    by (rule firstMatch_here)
  with h have "firstMatch androidVersionAt (p @ ''Android 14.2'' @ s) = Some (''14'', Some ''2'')"
    using firstMatch_skip [of androidVersionAt p "''Android 14.2'' @ s"] by simp
  then show "AndroidSupportInfo.version (getAndroidSupportInfo (p @ ''Android 14.2'' @ s))
               = Some (142 / 10)"
    using testCI_android [of p s]
    by (simp add: getAndroidSupportInfo_def Let_def parseInt_14 parseInt_2)
next
  assume h: "isIos (getIosSupportInfo (q @ ''OS 14_2_1'' @ t))
             \<and> noMatchBefore iosVersionAt q (''OS 14_2_1'' @ t)"
  have "firstMatch iosVersionAt (''OS 14_2_1'' @ t) = Some (''14'', ''2'')"
    using iosVersionAt_14_2_1 [of t] by (rule firstMatch_here)
  with h have "firstMatch iosVersionAt (q @ ''OS 14_2_1'' @ t) = Some (''14'', ''2'')"
    using firstMatch_skip [of iosVersionAt q "''OS 14_2_1'' @ t"] by simp
  then show "IosSupportInfo.version (getIosSupportInfo (q @ ''OS 14_2_1'' @ t)) = Some (142 / 10)"
    using h
    by (simp add: getIosSupportInfo_def Let_def parseInt_14 parseInt_2 split: if_splits)
next
  assume "isAndroid (getAndroidSupportInfo ua) \<and> firstMatch androidVersionAt ua = None"
  then show "AndroidSupportInfo.version (getAndroidSupportInfo ua) = None"
    by (simp add: getAndroidSupportInfo_def Let_def)
next
  assume "isAndroid (getAndroidSupportInfo ua) \<and> firstMatch androidVersionAt ua = None"
  then show "\<not> AndroidSupportInfo.supportsNfc (getAndroidSupportInfo ua)"
    by (simp add: getAndroidSupportInfo_def Let_def)
next
  assume "isIos (getIosSupportInfo ua') \<and> firstMatch iosVersionAt ua' = None"
  then show "IosSupportInfo.version (getIosSupportInfo ua') = None"
    by (simp add: getIosSupportInfo_def Let_def)
next
  assume "isIos (getIosSupportInfo ua') \<and> firstMatch iosVersionAt ua' = None"
  then show "\<not> IosSupportInfo.supportsNfc (getIosSupportInfo ua')"
    by (simp add: getIosSupportInfo_def Let_def)
qed

theorem version_parsing_witness:
  "AndroidSupportInfo.version (getAndroidSupportInfo ''Mozilla/5.0 (Linux; Android 14.2; Pixel 8)'')
     = Some (142 / 10)
   \<and> IosSupportInfo.version
       (getIosSupportInfo ''Mozilla/5.0 (iPhone; CPU iPhone OS 14_2_1 like Mac OS X)'')
     = Some (142 / 10)
   \<and> isAndroid (getAndroidSupportInfo ''Mozilla/5.0 (Linux; Android; Pixel 8)'')
   \<and> AndroidSupportInfo.version (getAndroidSupportInfo ''Mozilla/5.0 (Linux; Android; Pixel 8)'') = None
   \<and> \<not> AndroidSupportInfo.supportsNfc (getAndroidSupportInfo ''Mozilla/5.0 (Linux; Android; Pixel 8)'')
   \<and> isIos (getIosSupportInfo ''Mozilla/5.0 (iPad; like Mac)'')
   \<and> IosSupportInfo.version (getIosSupportInfo ''Mozilla/5.0 (iPad; like Mac)'') = None
   \<and> \<not> IosSupportInfo.supportsNfc (getIosSupportInfo ''Mozilla/5.0 (iPad; like Mac)'')"
proof -
  have a1: "noMatchBefore androidVersionAt ''Mozilla/5.0 (Linux; '' (''Android 14.2'' @ ''; Pixel 8)'')"
    by code_simp
  have a2: "''; Pixel 8)'' = [] \<or> \<not> isDigit (hd ''; Pixel 8)'')"
    by code_simp
  have b1: "isIos (getIosSupportInfo (''Mozilla/5.0 (iPhone; CPU iPhone '' @ ''OS 14_2_1'' @ '' like Mac OS X)''))"
    by code_simp
  have b2: "noMatchBefore iosVersionAt ''Mozilla/5.0 (iPhone; CPU iPhone '' (''OS 14_2_1'' @ '' like Mac OS X)'')"
    by code_simp
  have c1: "isAndroid (getAndroidSupportInfo ''Mozilla/5.0 (Linux; Android; Pixel 8)'')"
    by code_simp
  have c2: "firstMatch androidVersionAt ''Mozilla/5.0 (Linux; Android; Pixel 8)'' = None"
    by code_simp
  have d1: "isIos (getIosSupportInfo ''Mozilla/5.0 (iPad; like Mac)'')"
    by code_simp
  have d2: "firstMatch iosVersionAt ''Mozilla/5.0 (iPad; like Mac)'' = None"
    by code_simp
  show ?thesis
    using version_parsing [of "''Mozilla/5.0 (Linux; ''" "''; Pixel 8)''"
        "''Mozilla/5.0 (iPhone; CPU iPhone ''" "'' like Mac OS X)''"
        "''Mozilla/5.0 (Linux; Android; Pixel 8)''" "''Mozilla/5.0 (iPad; like Mac)''"]
      a1 a2 b1 b2 c1 c2 d1 d2
    by simp
qed


section \<open>Properties of the record codec\<close>

text \<open>
  C2, as stated, fails at the input \<open>T\<close>: the function compares with the record types of
  the browser, \<open>text\<close> and \<open>url\<close>, so the unified code \<open>T\<close> falls through to the
  default, EXTERNAL_TYPE.
\<close>

theorem mapRecordTypeToTnf_T_counterexample:
  "mapRecordTypeToTnf (Some ''T'') = EXTERNAL_TYPE \<and> EXTERNAL_TYPE \<noteq> WELL_KNOWN"
  by (simp add: mapRecordTypeToTnf_def startsWith_def EXTERNAL_TYPE_def WELL_KNOWN_def)

text \<open>
  C2, amended. The classification of the radio backend gives EMPTY for the empty and the
  absent type, WELL_KNOWN for the browser's keywords \<open>text\<close> and \<open>url\<close>, MIME_MEDIA for
  \<open>application/json\<close>, ABSOLUTE_URI for \<open>urn:nfc:ext:example\<close>, EXTERNAL_TYPE for
  \<open>example.com:custom\<close>, and EXTERNAL_TYPE for \<open>T\<close>.
\<close>

theorem mapRecordTypeToTnf_examples:
  "mapRecordTypeToTnf (Some []) = EMPTY
   \<and> mapRecordTypeToTnf None = EMPTY
   \<and> mapRecordTypeToTnf (Some ''text'') = WELL_KNOWN
   \<and> mapRecordTypeToTnf (Some ''url'') = WELL_KNOWN
   \<and> mapRecordTypeToTnf (Some ''application/json'') = MIME_MEDIA
   \<and> mapRecordTypeToTnf (Some ''urn:nfc:ext:example'') = ABSOLUTE_URI
   \<and> mapRecordTypeToTnf (Some ''example.com:custom'') = EXTERNAL_TYPE
   \<and> mapRecordTypeToTnf (Some ''T'') = EXTERNAL_TYPE"
  by (simp add: mapRecordTypeToTnf_def startsWith_def EMPTY_def WELL_KNOWN_def MIME_MEDIA_def
      ABSOLUTE_URI_def EXTERNAL_TYPE_def)

lemma orDefault_orElse_text:
  "p = None \<or> p = Some [] \<or> p = Some t \<Longrightarrow> orDefault (orElse p (Some t)) [] = t"
  by (cases p) auto

text \<open>
  C3, amended. For every unified record of type \<open>T\<close> whose content the platform's text
  encoding brings back unchanged, the record options that \<open>write\<close> builds, stored and
  read back through \<open>parseNdefReading\<close>, give a record whose \<open>text\<close> and \<open>payload\<close>
  both are the content \<open>payload || text || ""\<close> of the original: the payload when it is
  not empty, the text otherwise. They are the original text when the payload is absent,
  empty or the same as the text. The language code is \<open>en\<close> when the original has none
  or an empty one.
\<close>

theorem text_record_roundtrip:
  assumes "type r = ''T''"
    and "decode (encode (orDefault (orElse (payload r) (text r)) []))
         = Inr (orDefault (orElse (payload r) (text r)) [])"
  shows "\<exists>r'. parseRecord decode (stored encode (writeRecordOptions r)) = Inr r'
           \<and> text r' = Some (orDefault (orElse (payload r) (text r)) [])
           \<and> payload r' = Some (orDefault (orElse (payload r) (text r)) [])
           \<and> (languageCode r = None \<or> languageCode r = Some [] \<longrightarrow> languageCode r' = Some ''en'')
           \<and> (text r = Some t \<and> (payload r = None \<or> payload r = Some [] \<or> payload r = Some t)
                \<longrightarrow> text r' = Some t \<and> payload r' = Some t)"
proof -
  let ?c = "orDefault (orElse (payload r) (text r)) []"
  let ?r' = "\<lparr>NdefRecord.id = [], tnf = 1, type = ''text'', payload = Some ?c,
              languageCode = Some (orDefault (orElse (languageCode r) None) ''en''),
              uri = Some [], text = Some ?c\<rparr>"
  have run: "parseRecord decode (stored encode (writeRecordOptions r)) = Inr ?r'"
    using assms by (simp add: parseRecord_def stored_def writeRecordOptions_def mapRecordTypeToTnf_def)
  have same: "?c = t"
    if "text r = Some t \<and> (payload r = None \<or> payload r = Some [] \<or> payload r = Some t)"
    using that orDefault_orElse_text [of "payload r" t] by auto
  have en: "orDefault (orElse (languageCode r) None) ''en'' = ''en''"
    if "languageCode r = None \<or> languageCode r = Some []"
    using that by auto
  show ?thesis
    using run same en by auto
qed

theorem text_record_roundtrip_witness:
  "type \<lparr>NdefRecord.id = [], tnf = 1, type = ''T'', payload = None, languageCode = None,
         uri = None, text = Some ''hi''\<rparr> = ''T''
   \<and> utf8Decode (utf8Encode ''hi'') = Inr ''hi''
   \<and> (\<exists>r'. parseRecord utf8Decode (stored utf8Encode (writeRecordOptions
               \<lparr>NdefRecord.id = [], tnf = 1, type = ''T'', payload = None, languageCode = None,
                uri = None, text = Some ''hi''\<rparr>)) = Inr r'
          \<and> text r' = Some ''hi'' \<and> payload r' = Some ''hi'' \<and> languageCode r' = Some ''en'')"
proof -
  let ?r = "\<lparr>NdefRecord.id = [], tnf = 1, type = ''T'', payload = None, languageCode = None,
             uri = None, text = Some ''hi''\<rparr>"
  have codec: "utf8Decode (utf8Encode ''hi'') = Inr ''hi''"
    by code_simp
  have ty: "type ?r = ''T''"
    by simp
  from codec have pre: "utf8Decode (utf8Encode (orDefault (orElse (payload ?r) (text ?r)) []))
         = Inr (orDefault (orElse (payload ?r) (text ?r)) [])"
    by simp
  show ?thesis
    using text_record_roundtrip [of ?r utf8Decode utf8Encode "''hi''", OF ty pre] codec
    by simp blast
qed

text \<open>
  C3, as stated, fails for a text record whose payload and text differ: the payload wins,
  and the record read back has the text \<open>A\<close> where the original had \<open>B\<close>.
\<close>

theorem text_record_roundtrip_counterexample:
  "parseRecord utf8Decode (stored utf8Encode (writeRecordOptions
      \<lparr>NdefRecord.id = [], tnf = 1, type = ''T'', payload = Some ''A'', languageCode = None,
       uri = None, text = Some ''B''\<rparr>))
   = Inr \<lparr>NdefRecord.id = [], tnf = 1, type = ''text'', payload = Some ''A'',
          languageCode = Some ''en'', uri = Some [], text = Some ''A''\<rparr>
   \<and> Some ''A'' \<noteq> text \<lparr>NdefRecord.id = [], tnf = 1, type = ''T'', payload = Some ''A'',
          languageCode = None, uri = None, text = Some ''B''\<rparr>"
proof -
  have codec: "utf8Decode (utf8Encode ''A'') = Inr ''A''"
    by code_simp
  show ?thesis
    using codec
    by (simp add: parseRecord_def stored_def writeRecordOptions_def mapRecordTypeToTnf_def)
qed

section \<open>The facade's choice of backend\<close>

lemma useNativeBridge_undefined: "androidInfoProperty info ''useNativeBridge'' = JUndefined"
  by (simp add: androidInfoProperty_def)

lemma Nfc_new_not_android: "implementation (Nfc_new win) \<noteq> Android s"
  by (simp add: Nfc_new_def Let_def monitorNfcStatus_def useNativeBridge_undefined
      ios_addListener_def web_addListener_def)

text \<open>What the constructor does bind: the iOS bridge backend when iOS is detected and the
  slot is not \<open>undefined\<close>, and the radio backend in every other environment.\<close>

lemma Nfc_new_choice:
  "implementation (Nfc_new win) =
     (if isIos (getIosSupportInfo (userAgent win)) \<and> nativeNfcBridge win \<noteq> SlotUndefined
      then Ios (snd (ios_addListener (IosBridgeNfc_new (nativeNfcBridge win))
                       ''nfcStatusChanged'' StatusMonitor))
      else Web (snd (web_addListener (WebNfc_new (userAgent win) (readerInWindow win))
                       ''nfcStatusChanged'' StatusMonitor)))"
  by (simp add: Nfc_new_def Let_def monitorNfcStatus_def useNativeBridge_undefined split_beta)

text \<open>
  C1 asks that the facade binds the Android bridge backend whenever Android is detected,
  the detector prefers the native bridge and there is no iOS bridge. The constructor
  reads the property \<open>useNativeBridge\<close>, which the detector's result does not have, so
  the second branch is never taken. Here the code is run on the user agent of an Android
  WebView with the Android bridge injected: \<open>shouldUseNativeBridge\<close> holds, and the
  facade binds the radio backend.
\<close>

theorem Nfc_new_android_webview:
  "shouldUseNativeBridge ''Mozilla/5.0 (Linux; Android 10; wv) Chrome/90.0''
   \<and> isAndroid (getAndroidSupportInfo ''Mozilla/5.0 (Linux; Android 10; wv) Chrome/90.0'')
   \<and> implementation
        (Nfc_new \<lparr>userAgent = ''Mozilla/5.0 (Linux; Android 10; wv) Chrome/90.0'',
                  readerInWindow = True, nativeNfcBridge = SlotUndefined,
                  nativeAndroidNfcBridge =
                    SlotObject \<lparr>NativeAndroidBridge.isNfcEnabled = True,
                      NativeAndroidBridge.startNfcScan = True,
                      NativeAndroidBridge.stopNfcScan = True,
                      NativeAndroidBridge.writeNfcTag = True,
                      makeNfcTagReadOnly = True, formatNfcTag = True, eraseNfcTag = True,
                      shareNfcData = True, stopNfcSharing = True, openNfcSettings = True\<rparr>\<rparr>)
     = Web (snd (web_addListener
                   (WebNfc_new ''Mozilla/5.0 (Linux; Android 10; wv) Chrome/90.0'' True)
                   ''nfcStatusChanged'' StatusMonitor))"
proof -
  have a: "shouldUseNativeBridge ''Mozilla/5.0 (Linux; Android 10; wv) Chrome/90.0''"
    by code_simp
  have b: "isAndroid (getAndroidSupportInfo ''Mozilla/5.0 (Linux; Android 10; wv) Chrome/90.0'')"
    by code_simp
  have c: "\<not> isIos (getIosSupportInfo ''Mozilla/5.0 (Linux; Android 10; wv) Chrome/90.0'')"
    by code_simp
  show ?thesis
    using a b c
    by (simp add: Nfc_new_def Let_def monitorNfcStatus_def useNativeBridge_undefined split_beta)
qed

section \<open>Availability\<close>

text \<open>
  C4. \<open>isEnabled\<close> of the three backends and of the facade always resolves, whatever the
  bridge answers. It resolves to \<open>enabled: false\<close> on the wrong platform or without reader
  constructor (radio backend), without an available bridge or when the bridge's check
  rejects (bridge backends), and in each of these cases through the facade. A backend built
  on an empty global slot has no available bridge.
\<close>

theorem isEnabled_never_rejects:
  "(\<exists>r. web_isEnabled w = Inr r)
   \<and> (\<exists>r. ios_isEnabled s answer = Inr r)
   \<and> (\<exists>r. android_isEnabled t answer = Inr r)
   \<and> (\<exists>r. Nfc_isEnabled fac answer = Inr r)
   \<and> (isIos (WebNfc.iosInfo w) \<or> \<not> nfcSupported w
        \<longrightarrow> web_isEnabled w = Inr \<lparr>enabled = False\<rparr>)
   \<and> (\<not> IosBridgeNfc.isBridgeAvailable s \<or> answer = Inl e
        \<longrightarrow> ios_isEnabled s answer = Inr \<lparr>enabled = False\<rparr>)
   \<and> (\<not> AndroidBridgeNfc.isBridgeAvailable t \<or> answer = Inl e
        \<longrightarrow> android_isEnabled t answer = Inr \<lparr>enabled = False\<rparr>)
   \<and> ((case implementation fac of
          Web w' \<Rightarrow> isIos (WebNfc.iosInfo w') \<or> \<not> nfcSupported w'
        | Ios s' \<Rightarrow> \<not> IosBridgeNfc.isBridgeAvailable s' \<or> answer = Inl e
        | Android t' \<Rightarrow> \<not> AndroidBridgeNfc.isBridgeAvailable t' \<or> answer = Inl e)
        \<longrightarrow> Nfc_isEnabled fac answer = Inr \<lparr>enabled = False\<rparr>)
   \<and> \<not> IosBridgeNfc.isBridgeAvailable (IosBridgeNfc_new SlotUndefined)
   \<and> \<not> AndroidBridgeNfc.isBridgeAvailable (AndroidBridgeNfc_new SlotUndefined)"
proof (intro conjI)
  show "\<exists>r. web_isEnabled w = Inr r"
    by (simp add: web_isEnabled_def)
  show "\<exists>r. ios_isEnabled s answer = Inr r"
    by (cases answer) (simp_all add: ios_isEnabled_def)
  show "\<exists>r. android_isEnabled t answer = Inr r"
    by (cases answer) (simp_all add: android_isEnabled_def)
  show "\<exists>r. Nfc_isEnabled fac answer = Inr r"
    by (cases "plugin_isEnabled (implementation fac) answer") (simp_all add: Nfc_isEnabled_def)
  show "isIos (WebNfc.iosInfo w) \<or> \<not> nfcSupported w
        \<longrightarrow> web_isEnabled w = Inr \<lparr>enabled = False\<rparr>"
    by (auto simp add: web_isEnabled_def)
  show "\<not> IosBridgeNfc.isBridgeAvailable s \<or> answer = Inl e
        \<longrightarrow> ios_isEnabled s answer = Inr \<lparr>enabled = False\<rparr>"
    by (auto simp add: ios_isEnabled_def)
  show "\<not> AndroidBridgeNfc.isBridgeAvailable t \<or> answer = Inl e
        \<longrightarrow> android_isEnabled t answer = Inr \<lparr>enabled = False\<rparr>"
    by (auto simp add: android_isEnabled_def)
  show "(case implementation fac of
          Web w' \<Rightarrow> isIos (WebNfc.iosInfo w') \<or> \<not> nfcSupported w'
        | Ios s' \<Rightarrow> \<not> IosBridgeNfc.isBridgeAvailable s' \<or> answer = Inl e
        | Android t' \<Rightarrow> \<not> AndroidBridgeNfc.isBridgeAvailable t' \<or> answer = Inl e)
        \<longrightarrow> Nfc_isEnabled fac answer = Inr \<lparr>enabled = False\<rparr>"
    by (cases "implementation fac")
      (auto simp add: Nfc_isEnabled_def web_isEnabled_def ios_isEnabled_def android_isEnabled_def)
  show "\<not> IosBridgeNfc.isBridgeAvailable (IosBridgeNfc_new SlotUndefined)"
    by (simp add: IosBridgeNfc_new_def)
  show "\<not> AndroidBridgeNfc.isBridgeAvailable (AndroidBridgeNfc_new SlotUndefined)"
    by (simp add: AndroidBridgeNfc_new_def)
qed

text \<open>The cases of C4 at a browser without reader constructor, at empty slots and at a
  check that rejects.\<close>

theorem isEnabled_never_rejects_witness:
  "\<not> nfcSupported (WebNfc_new ''Firefox'' False)
   \<and> web_isEnabled (WebNfc_new ''Firefox'' False) = Inr \<lparr>enabled = False\<rparr>
   \<and> \<not> IosBridgeNfc.isBridgeAvailable (IosBridgeNfc_new SlotUndefined)
   \<and> ios_isEnabled (IosBridgeNfc_new SlotUndefined) (Inl Nullish) = Inr \<lparr>enabled = False\<rparr>
   \<and> \<not> AndroidBridgeNfc.isBridgeAvailable (AndroidBridgeNfc_new SlotNull)
   \<and> android_isEnabled (AndroidBridgeNfc_new SlotNull) (Inl Nullish) = Inr \<lparr>enabled = False\<rparr>
   \<and> Nfc_isEnabled
        (Nfc_new \<lparr>userAgent = ''Firefox'', readerInWindow = False,
                  nativeNfcBridge = SlotUndefined, nativeAndroidNfcBridge = SlotUndefined\<rparr>)
        (Inl Nullish)
       = Inr \<lparr>enabled = False\<rparr>"
proof -
  have ios: "\<not> isIos (getIosSupportInfo ''Firefox'')"
    by code_simp
  have w: "\<not> nfcSupported (WebNfc_new ''Firefox'' False)"
    by (simp add: WebNfc_new_def Let_def)
  have s: "\<not> IosBridgeNfc.isBridgeAvailable (IosBridgeNfc_new SlotUndefined)"
    by (simp add: IosBridgeNfc_new_def)
  have t: "\<not> AndroidBridgeNfc.isBridgeAvailable (AndroidBridgeNfc_new SlotNull)"
    by (simp add: AndroidBridgeNfc_new_def)
  have f: "case implementation
               (Nfc_new \<lparr>userAgent = ''Firefox'', readerInWindow = False,
                         nativeNfcBridge = SlotUndefined, nativeAndroidNfcBridge = SlotUndefined\<rparr>) of
             Web w' \<Rightarrow> isIos (WebNfc.iosInfo w') \<or> \<not> nfcSupported w'
           | Ios s' \<Rightarrow> \<not> IosBridgeNfc.isBridgeAvailable s' \<or> Inl Nullish = (Inl Nullish :: thrown + bool)
           | Android t' \<Rightarrow> \<not> AndroidBridgeNfc.isBridgeAvailable t' \<or> Inl Nullish = (Inl Nullish :: thrown + bool)"
    using ios
    by (simp add: Nfc_new_def Let_def monitorNfcStatus_def useNativeBridge_undefined split_beta
        web_addListener_def WebNfc_new_def)
  show ?thesis
    using isEnabled_never_rejects
      [of "WebNfc_new ''Firefox'' False" "IosBridgeNfc_new SlotUndefined" "Inl Nullish"
          "AndroidBridgeNfc_new SlotNull"
          "Nfc_new \<lparr>userAgent = ''Firefox'', readerInWindow = False,
                    nativeNfcBridge = SlotUndefined, nativeAndroidNfcBridge = SlotUndefined\<rparr>"
          Nullish]
      w s t f
    by simp
qed

section \<open>Stopping a scan session\<close>

text \<open>
  C5. On each backend and from any state, \<open>stopScanSession\<close> resolves, and a second call
  resolves too and leaves the state that the first call left, whatever \<open>abort\<close> or the
  bridge do at either call. On the radio backend that state has the session flag off.
\<close>

theorem stopScanSession_idempotent:
  "fst (web_stopScanSession w a1) = Inr ()
   \<and> web_stopScanSession (snd (web_stopScanSession w a1)) a2
       = (Inr (), snd (web_stopScanSession w a1))
   \<and> \<not> scanSessionActive (snd (web_stopScanSession w a1))
   \<and> fst (ios_stopScanSession s a1) = Inr ()
   \<and> ios_stopScanSession (snd (ios_stopScanSession s a1)) a2
       = (Inr (), snd (ios_stopScanSession s a1))
   \<and> fst (android_stopScanSession t a1) = Inr ()
   \<and> android_stopScanSession (snd (android_stopScanSession t a1)) a2
       = (Inr (), snd (android_stopScanSession t a1))"
proof (intro conjI)
  have web: "web_stopScanSession v a = (Inr (), v\<lparr>scanSessionActive := False\<rparr>)" for v a
    by (simp add: web_stopScanSession_def Let_def split: option.split)
  show "fst (web_stopScanSession w a1) = Inr ()"
    by (simp add: web)
  show "web_stopScanSession (snd (web_stopScanSession w a1)) a2
          = (Inr (), snd (web_stopScanSession w a1))"
    by (simp add: web)
  show "\<not> scanSessionActive (snd (web_stopScanSession w a1))"
    by (simp add: web)
  have ios: "ios_stopScanSession v a = (Inr (), v)" for v a
    by (simp add: ios_stopScanSession_def split: option.split)
  show "fst (ios_stopScanSession s a1) = Inr ()"
    by (simp add: ios)
  show "ios_stopScanSession (snd (ios_stopScanSession s a1)) a2
          = (Inr (), snd (ios_stopScanSession s a1))"
    by (simp add: ios)
  have android: "android_stopScanSession v a = (Inr (), v)" for v a
    by (simp add: android_stopScanSession_def split: option.split)
  show "fst (android_stopScanSession t a1) = Inr ()"
    by (simp add: android)
  show "android_stopScanSession (snd (android_stopScanSession t a1)) a2
          = (Inr (), snd (android_stopScanSession t a1))"
    by (simp add: android)
qed

text \<open>C5 at a radio backend with a running session and a reader whose \<open>abort\<close> throws,
  and at two bridge backends.\<close>

theorem stopScanSession_idempotent_witness:
  "fst (web_stopScanSession
          (snd (web_startScanSession (WebNfc_new ''Chrome'' True) None (Inr \<lparr>abort = True\<rparr>) None))
          (Some Nullish)) = Inr ()
   \<and> web_stopScanSession
        (snd (web_stopScanSession
          (snd (web_startScanSession (WebNfc_new ''Chrome'' True) None (Inr \<lparr>abort = True\<rparr>) None))
          (Some Nullish))) None
       = (Inr (), snd (web_stopScanSession
          (snd (web_startScanSession (WebNfc_new ''Chrome'' True) None (Inr \<lparr>abort = True\<rparr>) None))
          (Some Nullish)))
   \<and> fst (ios_stopScanSession
            (IosBridgeNfc_new (SlotObject \<lparr>NativeIosBridge.isNfcEnabled = True,
               NativeIosBridge.startNfcScan = True, NativeIosBridge.stopNfcScan = True,
               NativeIosBridge.writeNfcTag = True, openSettings = True\<rparr>))
            (Some Nullish)) = Inr ()
   \<and> fst (android_stopScanSession (AndroidBridgeNfc_new SlotUndefined) (Some Nullish)) = Inr ()"
  using stopScanSession_idempotent
    [of "snd (web_startScanSession (WebNfc_new ''Chrome'' True) None (Inr \<lparr>abort = True\<rparr>) None)"
        "Some Nullish" None
        "IosBridgeNfc_new (SlotObject \<lparr>NativeIosBridge.isNfcEnabled = True,
               NativeIosBridge.startNfcScan = True, NativeIosBridge.stopNfcScan = True,
               NativeIosBridge.writeNfcTag = True, openSettings = True\<rparr>)"
        "AndroidBridgeNfc_new SlotUndefined"]
  by simp

section \<open>Scan sessions of the radio backend\<close>

lemma web_stopScanSession_eq:
  "web_stopScanSession w a = (Inr (), w\<lparr>scanSessionActive := False\<rparr>)"
  by (simp add: web_stopScanSession_def Let_def split: option.split)

lemma web_onReading_inactive:
  "\<not> scanSessionActive w \<Longrightarrow> web_onReading decode w event a = ([], w)"
  by (simp add: web_onReading_def)

text \<open>
  A session started with \<open>once: true\<close> and one listener that returns: the first event
  that parses calls the listener once and ends the session, and a later event calls
  nothing.
\<close>

lemma once_session_returning_listener:
  assumes "\<not> isIos (WebNfc.iosInfo w)" and "nfcSupported w"
    and "once opts = Some True"
    and "listenersFor (WebNfc.listeners w) ''tagDetected'' = [l]"
    and "throwsOf l = None"
    and "parseNdefReading decode ev1 = Inr tag"
  shows "\<exists>w1 w2. web_startScanSession w (Some opts) (Inr reader) None = (Inr (), w1)
           \<and> web_onReading decode w1 ev1 a1 = ([(l, TagData tag)], w2)
           \<and> \<not> scanSessionActive w2
           \<and> web_onReading decode w2 ev2 a2 = ([], w2)"
  using assms
  by (simp add: web_startScanSession_def web_onReading_def Let_def web_stopScanSession_eq)

text \<open>
  C6 asks the same of every listener. When the listener throws, the \<open>catch\<close> of the
  handler skips the call of \<open>stopScanSession\<close>: after the first event the session is
  still active, and the second event calls the listener again.
\<close>

theorem once_session_throwing_listener:
  "fst (web_onReading utf8Decode
          (snd (web_startScanSession
                  (snd (web_addListener (WebNfc_new ''Chrome'' True) ''tagDetected''
                          (UserFn 1 (Some (newError ''boom'')))))
                  (Some \<lparr>once = Some True, scanSoundEnabled = None, alertMessageEnabled = None\<rparr>)
                  (Inr \<lparr>abort = False\<rparr>) None))
          \<lparr>serialNumber = Some ''04'', message = None\<rparr> None)
     = [(UserFn 1 (Some (newError ''boom'')),
         TagData \<lparr>TagDetectedEvent.id = ''04'', techTypes = [''ndef''], messages = []\<rparr>)]
   \<and> scanSessionActive
        (snd (web_onReading utf8Decode
          (snd (web_startScanSession
                  (snd (web_addListener (WebNfc_new ''Chrome'' True) ''tagDetected''
                          (UserFn 1 (Some (newError ''boom'')))))
                  (Some \<lparr>once = Some True, scanSoundEnabled = None, alertMessageEnabled = None\<rparr>)
                  (Inr \<lparr>abort = False\<rparr>) None))
          \<lparr>serialNumber = Some ''04'', message = None\<rparr> None))
   \<and> fst (web_onReading utf8Decode
        (snd (web_onReading utf8Decode
          (snd (web_startScanSession
                  (snd (web_addListener (WebNfc_new ''Chrome'' True) ''tagDetected''
                          (UserFn 1 (Some (newError ''boom'')))))
                  (Some \<lparr>once = Some True, scanSoundEnabled = None, alertMessageEnabled = None\<rparr>)
                  (Inr \<lparr>abort = False\<rparr>) None))
          \<lparr>serialNumber = Some ''04'', message = None\<rparr> None))
        \<lparr>serialNumber = Some ''05'', message = None\<rparr> None)
     = [(UserFn 1 (Some (newError ''boom'')),
         TagData \<lparr>TagDetectedEvent.id = ''05'', techTypes = [''ndef''], messages = []\<rparr>)]"
proof -
  have ios: "\<not> isIos (getIosSupportInfo ''Chrome'')"
    by code_simp
  show ?thesis
    using ios
    by (simp add: web_startScanSession_def web_onReading_def web_addListener_def WebNfc_new_def
        pushListener_def listenersFor_def parseNdefReading_def Let_def)
qed

text \<open>
  C10. When \<open>startScanSession\<close> of the radio backend rejects, the session flag is off
  afterwards and a reading event calls no listener. This holds in every state where an
  active session implies a supported platform, which the constructor establishes and the
  operations keep; a rejection that comes from the construction of the reader or from
  \<open>scan()\<close> happens on a supported platform, so for it the condition holds by itself.
\<close>

theorem failed_start_leaves_no_session:
  assumes "fst (web_startScanSession w options constructed scanResult) = Inl e"
    and "scanSessionActive w \<longrightarrow> \<not> isIos (WebNfc.iosInfo w) \<and> nfcSupported w"
  shows "\<not> scanSessionActive (snd (web_startScanSession w options constructed scanResult))
         \<and> web_onReading decode (snd (web_startScanSession w options constructed scanResult))
              event a
            = ([], snd (web_startScanSession w options constructed scanResult))"
proof -
  have "\<not> scanSessionActive (snd (web_startScanSession w options constructed scanResult))"
    using assms
    by (auto simp add: web_startScanSession_def Let_def split: if_splits sum.splits option.splits)
  then show ?thesis
    by (simp add: web_onReading_inactive)
qed

text \<open>On a supported platform, a reader that cannot be constructed or a scan that is
  rejected makes \<open>startScanSession\<close> reject.\<close>

lemma failed_start_in_try:
  assumes "\<not> isIos (WebNfc.iosInfo w)" and "nfcSupported w"
    and "constructed = Inl e \<or> (\<exists>e. scanResult = Some e)"
  shows "\<exists>e'. fst (web_startScanSession w options constructed scanResult) = Inl e'"
  using assms
  by (auto simp add: web_startScanSession_def Let_def split: sum.splits option.splits)

lemma web_startScanSession_scan_rejected:
  "\<not> isIos (WebNfc.iosInfo w) \<Longrightarrow> nfcSupported w \<Longrightarrow>
   fst (web_startScanSession w options (Inr reader) (Some e)) = Inl (startScanFailure e)"
  by (simp add: web_startScanSession_def Let_def)

text \<open>C10 at a backend with a listener and a running session, where a second start is
  rejected because the user denies the permission.\<close>

theorem failed_start_leaves_no_session_witness:
  "scanSessionActive
     (snd (web_startScanSession
        (snd (web_addListener (WebNfc_new ''Chrome'' True) ''tagDetected'' (UserFn 1 None)))
        None (Inr \<lparr>abort = False\<rparr>) None))
   \<and> fst (web_startScanSession
        (snd (web_startScanSession
          (snd (web_addListener (WebNfc_new ''Chrome'' True) ''tagDetected'' (UserFn 1 None)))
          None (Inr \<lparr>abort = False\<rparr>) None))
        None (Inr \<lparr>abort = False\<rparr>)
        (Some (Thrown (Some ''denied'') (Some ''NotAllowedError'') None)))
     = Inl (newError ''NFC permission denied. Please allow NFC scanning when prompted.'')
   \<and> \<not> scanSessionActive
        (snd (web_startScanSession
          (snd (web_startScanSession
            (snd (web_addListener (WebNfc_new ''Chrome'' True) ''tagDetected'' (UserFn 1 None)))
            None (Inr \<lparr>abort = False\<rparr>) None))
          None (Inr \<lparr>abort = False\<rparr>)
          (Some (Thrown (Some ''denied'') (Some ''NotAllowedError'') None))))
   \<and> fst (web_onReading utf8Decode
        (snd (web_startScanSession
          (snd (web_startScanSession
            (snd (web_addListener (WebNfc_new ''Chrome'' True) ''tagDetected'' (UserFn 1 None)))
            None (Inr \<lparr>abort = False\<rparr>) None))
          None (Inr \<lparr>abort = False\<rparr>)
          (Some (Thrown (Some ''denied'') (Some ''NotAllowedError'') None))))
        \<lparr>serialNumber = Some ''04'', message = None\<rparr> None) = []"
proof -
  have ios: "\<not> isIos (getIosSupportInfo ''Chrome'')"
    by code_simp
  let ?w = "snd (web_startScanSession
              (snd (web_addListener (WebNfc_new ''Chrome'' True) ''tagDetected'' (UserFn 1 None)))
              None (Inr \<lparr>abort = False\<rparr>) None)"
  let ?r = "Some (Thrown (Some ''denied'') (Some ''NotAllowedError'') None)"
  have state: "scanSessionActive ?w" "\<not> isIos (WebNfc.iosInfo ?w)" "nfcSupported ?w"
    using ios
    by (simp_all add: web_startScanSession_def web_addListener_def WebNfc_new_def Let_def)
  have rej: "fst (web_startScanSession ?w None (Inr \<lparr>abort = False\<rparr>) ?r)
             = Inl (newError ''NFC permission denied. Please allow NFC scanning when prompted.'')"
    using web_startScanSession_scan_rejected [OF state(2,3)]
    by (simp add: startScanFailure_def)
  have inv: "scanSessionActive ?w \<longrightarrow> \<not> isIos (WebNfc.iosInfo ?w) \<and> nfcSupported ?w"
    using state by simp
  show ?thesis
    using failed_start_leaves_no_session [OF rej inv, of utf8Decode
        "\<lparr>serialNumber = Some ''04'', message = None\<rparr>" None] rej state(1)
    by simp
qed

text \<open>The condition of C10 holds after the constructor, and every operation of the radio
  backend keeps it.\<close>

lemma WebNfc_new_supported:
  "scanSessionActive (WebNfc_new ua r)
     \<longrightarrow> \<not> isIos (WebNfc.iosInfo (WebNfc_new ua r)) \<and> nfcSupported (WebNfc_new ua r)"
  by (simp add: WebNfc_new_def Let_def)

lemma web_startScanSession_supported:
  assumes "scanSessionActive w \<longrightarrow> \<not> isIos (WebNfc.iosInfo w) \<and> nfcSupported w"
  shows "scanSessionActive (snd (web_startScanSession w options constructed scanResult))
     \<longrightarrow> \<not> isIos (WebNfc.iosInfo (snd (web_startScanSession w options constructed scanResult)))
          \<and> nfcSupported (snd (web_startScanSession w options constructed scanResult))"
  using assms
  by (auto simp add: web_startScanSession_def Let_def split: sum.splits option.splits)

lemma web_stopScanSession_supported:
  "scanSessionActive (snd (web_stopScanSession w a))
     \<longrightarrow> \<not> isIos (WebNfc.iosInfo (snd (web_stopScanSession w a)))
          \<and> nfcSupported (snd (web_stopScanSession w a))"
  by (simp add: web_stopScanSession_eq)

lemma web_onReading_supported:
  assumes "scanSessionActive w \<longrightarrow> \<not> isIos (WebNfc.iosInfo w) \<and> nfcSupported w"
  shows "scanSessionActive (snd (web_onReading decode w event a))
     \<longrightarrow> \<not> isIos (WebNfc.iosInfo (snd (web_onReading decode w event a)))
          \<and> nfcSupported (snd (web_onReading decode w event a))"
  using assms
  by (auto simp add: web_onReading_def Let_def web_stopScanSession_eq
      split: sum.splits option.splits prod.splits)

lemma web_listeners_supported:
  assumes "scanSessionActive w \<longrightarrow> \<not> isIos (WebNfc.iosInfo w) \<and> nfcSupported w"
  shows "scanSessionActive (snd (web_addListener w ev f))
     \<longrightarrow> \<not> isIos (WebNfc.iosInfo (snd (web_addListener w ev f)))
          \<and> nfcSupported (snd (web_addListener w ev f))"
    and "scanSessionActive (snd (web_remove w (Handle ev f)))
     \<longrightarrow> \<not> isIos (WebNfc.iosInfo (snd (web_remove w (Handle ev f))))
          \<and> nfcSupported (snd (web_remove w (Handle ev f)))"
    and "scanSessionActive (snd (web_removeAllListeners w))
     \<longrightarrow> \<not> isIos (WebNfc.iosInfo (snd (web_removeAllListeners w)))
          \<and> nfcSupported (snd (web_removeAllListeners w))"
  using assms
  by (simp_all add: web_addListener_def web_removeAllListeners_def)

section \<open>Errors of the facade's startScanSession\<close>

lemma not_supported_messages:
  "str_includes (''NFC reading is not supported in web browsers on iOS. ''
       @ ''To use NFC on iOS, you need a native app implementation.'') ''not supported''"
  "str_includes (''Web NFC API is not supported in this browser. ''
       @ ''NFC Web API requires Chrome 89+ on Android with NFC hardware, ''
       @ ''running over HTTPS.'') ''not supported''"
  by code_simp+

lemma Nfc_startScanSession_fst:
  "fst (Nfc_startScanSession fac options constructed answer) =
     (case fst (plugin_startScanSession (implementation fac) options constructed answer) of
        Inr u \<Rightarrow> Inr u
      | Inl error \<Rightarrow> Inl (standardizedError error))"
  by (simp add: Nfc_startScanSession_def Let_def split_beta split: sum.splits)

text \<open>
  C7, amended. When \<open>startScanSession\<close> of the bound backend rejects with an error
  object, the facade rejects with a new error. Its message is the message of that error
  when it has one that is not empty, and \<open>Failed to start NFC scan\<close> otherwise. Its code
  is NOT_SUPPORTED when the message includes \<open>not supported\<close> or the name is
  \<open>NotSupportedError\<close>; else PERMISSION_DENIED when the message includes \<open>permission\<close>
  or the name is \<open>NotAllowedError\<close>; else NOT_ENABLED when the message includes
  \<open>not enabled\<close>; else UNEXPECTED_ERROR. With the radio backend bound and no support
  for the reader, the facade rejects with the code NOT_SUPPORTED.
\<close>

theorem startScanSession_classifies:
  "(fst (plugin_startScanSession (implementation fac) options constructed answer)
      = Inl (Thrown m n c)
    \<longrightarrow> fst (Nfc_startScanSession fac options constructed answer)
          = Inl (Thrown (Some (orDefault m ''Failed to start NFC scan'')) (Some ''Error'')
                   (Some (if messageIncludes m ''not supported'' \<or> n = Some ''NotSupportedError''
                          then NOT_SUPPORTED
                          else if messageIncludes m ''permission'' \<or> n = Some ''NotAllowedError''
                          then PERMISSION_DENIED
                          else if messageIncludes m ''not enabled'' then NOT_ENABLED
                          else UNEXPECTED_ERROR))))
   \<and> (implementation fac = Web w \<and> \<not> nfcSupported w
      \<longrightarrow> (\<exists>msg. fst (Nfc_startScanSession fac options constructed answer)
                   = Inl (Thrown (Some msg) (Some ''Error'') (Some NOT_SUPPORTED))))"
proof (intro conjI impI)
  assume "fst (plugin_startScanSession (implementation fac) options constructed answer)
            = Inl (Thrown m n c)"
  then show "fst (Nfc_startScanSession fac options constructed answer)
          = Inl (Thrown (Some (orDefault m ''Failed to start NFC scan'')) (Some ''Error'')
                   (Some (if messageIncludes m ''not supported'' \<or> n = Some ''NotSupportedError''
                          then NOT_SUPPORTED
                          else if messageIncludes m ''permission'' \<or> n = Some ''NotAllowedError''
                          then PERMISSION_DENIED
                          else if messageIncludes m ''not enabled'' then NOT_ENABLED
                          else UNEXPECTED_ERROR)))"
    by (simp add: Nfc_startScanSession_fst standardizedError_def)
next
  assume web: "implementation fac = Web w \<and> \<not> nfcSupported w"
  have "\<exists>msg. fst (web_startScanSession w options constructed answer)
                 = Inl (Thrown (Some msg) (Some ''Error'') None)
               \<and> str_includes msg ''not supported''"
    using web not_supported_messages
    by (simp add: web_startScanSession_def createCompatibilityError_def newError_def)
  then obtain msg where
    "fst (web_startScanSession w options constructed answer)
       = Inl (Thrown (Some msg) (Some ''Error'') None)"
    and "str_includes msg ''not supported''"
    by blast
  then have "fst (Nfc_startScanSession fac options constructed answer)
               = Inl (Thrown (Some (orDefault (Some msg) ''Failed to start NFC scan''))
                       (Some ''Error'') (Some NOT_SUPPORTED))"
    using web
    by (simp add: Nfc_startScanSession_fst standardizedError_def messageIncludes_def split_beta)
  then show "\<exists>msg. fst (Nfc_startScanSession fac options constructed answer)
                   = Inl (Thrown (Some msg) (Some ''Error'') (Some NOT_SUPPORTED))"
    by blast
qed

text \<open>C7 at a browser without reader constructor.\<close>

theorem startScanSession_classifies_witness:
  "fst (plugin_startScanSession
          (implementation (Nfc_new \<lparr>userAgent = ''Firefox'', readerInWindow = False,
             nativeNfcBridge = SlotUndefined, nativeAndroidNfcBridge = SlotUndefined\<rparr>))
          None (Inl Nullish) None)
     = Inl (Thrown (Some (''Web NFC API is not supported in this browser. ''
                          @ ''NFC Web API requires Chrome 89+ on Android with NFC hardware, ''
                          @ ''running over HTTPS.'')) (Some ''Error'') None)
   \<and> implementation (Nfc_new \<lparr>userAgent = ''Firefox'', readerInWindow = False,
             nativeNfcBridge = SlotUndefined, nativeAndroidNfcBridge = SlotUndefined\<rparr>)
       = Web (snd (web_addListener (WebNfc_new ''Firefox'' False) ''nfcStatusChanged'' StatusMonitor))
   \<and> \<not> nfcSupported
         (snd (web_addListener (WebNfc_new ''Firefox'' False) ''nfcStatusChanged'' StatusMonitor))
   \<and> fst (Nfc_startScanSession
            (Nfc_new \<lparr>userAgent = ''Firefox'', readerInWindow = False,
               nativeNfcBridge = SlotUndefined, nativeAndroidNfcBridge = SlotUndefined\<rparr>)
            None (Inl Nullish) None)
       = Inl (Thrown (Some (''Web NFC API is not supported in this browser. ''
                            @ ''NFC Web API requires Chrome 89+ on Android with NFC hardware, ''
                            @ ''running over HTTPS.'')) (Some ''Error'') (Some NOT_SUPPORTED))"
proof -
  let ?win = "\<lparr>userAgent = ''Firefox'', readerInWindow = False,
             nativeNfcBridge = SlotUndefined, nativeAndroidNfcBridge = SlotUndefined\<rparr>"
  let ?w = "snd (web_addListener (WebNfc_new ''Firefox'' False) ''nfcStatusChanged'' StatusMonitor)"
  let ?msg = "''Web NFC API is not supported in this browser. ''
              @ ''NFC Web API requires Chrome 89+ on Android with NFC hardware, ''
              @ ''running over HTTPS.''"
  have ios: "\<not> isIos (getIosSupportInfo ''Firefox'')"
    by code_simp
  have impl: "implementation (Nfc_new ?win) = Web ?w"
    using ios
    by (simp add: Nfc_new_def Let_def monitorNfcStatus_def useNativeBridge_undefined split_beta)
  have unsupported: "\<not> nfcSupported ?w"
    by (simp add: web_addListener_def WebNfc_new_def Let_def)
  have rejects: "fst (plugin_startScanSession (implementation (Nfc_new ?win)) None (Inl Nullish) None)
                 = Inl (Thrown (Some ?msg) (Some ''Error'') None)"
    unfolding impl using ios
    by (simp add: web_startScanSession_def web_addListener_def WebNfc_new_def Let_def
        createCompatibilityError_def newError_def split_beta)
  have inc: "messageIncludes (Some ?msg) ''not supported''"
    using not_supported_messages(2) by (simp add: messageIncludes_def)
  have "fst (Nfc_startScanSession (Nfc_new ?win) None (Inl Nullish) None)
        = Inl (Thrown (Some (orDefault (Some ?msg) ''Failed to start NFC scan'')) (Some ''Error'')
                (Some NOT_SUPPORTED))"
    using startScanSession_classifies
      [of "Nfc_new ?win" None "Inl Nullish" None "Some ?msg" "Some ''Error''" None ?w]
      rejects inc
    by simp
  then show ?thesis
    using impl unsupported rejects by simp
qed

text \<open>
  C7, as stated, fails for an error with an empty message: the bridge rejects with such an
  error, and the message of the facade's error is the default text, not the empty one.
\<close>

theorem startScanSession_message_counterexample:
  "fst (plugin_startScanSession
          (implementation (Nfc_new \<lparr>userAgent = ''iPhone'', readerInWindow = False,
             nativeNfcBridge = SlotObject \<lparr>NativeIosBridge.isNfcEnabled = True,
               NativeIosBridge.startNfcScan = True, NativeIosBridge.stopNfcScan = True,
               NativeIosBridge.writeNfcTag = True, openSettings = True\<rparr>,
             nativeAndroidNfcBridge = SlotUndefined\<rparr>))
          None (Inl Nullish) (Some (Thrown (Some []) (Some ''Error'') None)))
     = Inl (Thrown (Some []) (Some ''Error'') None)
   \<and> fst (Nfc_startScanSession
            (Nfc_new \<lparr>userAgent = ''iPhone'', readerInWindow = False,
               nativeNfcBridge = SlotObject \<lparr>NativeIosBridge.isNfcEnabled = True,
                 NativeIosBridge.startNfcScan = True, NativeIosBridge.stopNfcScan = True,
                 NativeIosBridge.writeNfcTag = True, openSettings = True\<rparr>,
               nativeAndroidNfcBridge = SlotUndefined\<rparr>)
            None (Inl Nullish) (Some (Thrown (Some []) (Some ''Error'') None)))
       = Inl (Thrown (Some ''Failed to start NFC scan'') (Some ''Error'') (Some UNEXPECTED_ERROR))
   \<and> Some ''Failed to start NFC scan'' \<noteq> Some []"
proof -
  have ios: "isIos (getIosSupportInfo ''iPhone'')"
    by code_simp
  show ?thesis
    using ios
    by (simp add: Nfc_startScanSession_fst Nfc_new_def Let_def monitorNfcStatus_def split_beta
        ios_addListener_def IosBridgeNfc_new_def ios_startScanSession_def standardizedError_def
        messageIncludes_def)
qed

section \<open>Listeners of the facade\<close>

lemma listenersFor_removeListener:
  "listenersFor (removeListener ls ev f) ev' =
     (if ev' = ev then filter (\<lambda>l. l \<noteq> f) (listenersFor ls ev) else listenersFor ls ev')"
  by (auto simp add: listenersFor_def removeListener_def split: option.splits)

lemma listenersFor_pushListener:
  "listenersFor (pushListener ls ev f) ev' =
     (if ev' = ev then listenersFor ls ev @ [f] else listenersFor ls ev')"
  by (auto simp add: listenersFor_def pushListener_def Let_def split: option.splits)

lemma removeListener_twice:
  "removeListener (removeListener ls ev f) ev f = removeListener ls ev f"
  by (auto simp add: removeListener_def split: option.splits)

lemma plugin_addListener_eq:
  "fst (plugin_addListener p ev f) = Handle ev f"
  "plugin_listeners (snd (plugin_addListener p ev f)) = pushListener (plugin_listeners p) ev f"
  by (cases p; simp add: web_addListener_def ios_addListener_def android_addListener_def)+

lemma plugin_remove_eq:
  "fst (plugin_remove p (Handle ev f)) = Inr ()"
  "plugin_listeners (snd (plugin_remove p (Handle ev f))) = removeListener (plugin_listeners p) ev f"
  by (cases p; simp)+

lemma plugin_remove_twice:
  "plugin_remove (snd (plugin_remove p (Handle ev f))) (Handle ev f)
     = (Inr (), snd (plugin_remove p (Handle ev f)))"
  by (cases p) (simp_all add: removeListener_twice)

lemma callListeners_mem:
  "callListeners ls d = (calls, e) \<Longrightarrow> (l, x) \<in> set calls \<Longrightarrow> l \<in> set ls"
proof (induction ls arbitrary: calls e)
  case Nil
  then show ?case by simp
next
  case (Cons a ls)
  show ?case
  proof (cases "throwsOf a")
    case (Some t)
    with Cons.prems show ?thesis by auto
  next
    case None
    obtain calls' e' where rest: "callListeners ls d = (calls', e')"
      by (cases "callListeners ls d")
    with None Cons.prems have "calls = (a, d) # calls'"
      by simp
    with Cons.prems Cons.IH [OF rest] show ?thesis
      by auto
  qed
qed

lemma callListeners_mem_fst:
  "(l, x) \<in> set (fst (callListeners ls d)) \<Longrightarrow> l \<in> set ls"
  using callListeners_mem [of ls d "fst (callListeners ls d)" "snd (callListeners ls d)"]
  by simp

lemma handleNativeMessage_subset:
  assumes "deliveryName (Message d) = Some ev"
  shows "fst ` set (fst (handleNativeMessage ls d)) \<subseteq> set (listenersFor ls ev)"
proof (cases d)
  case NotAnObject
  with assms show ?thesis by simp
next
  case (DataObject ty tg en)
  show ?thesis
  proof (cases "ty = Some ''nfcTagDetected''")
    case True
    with assms DataObject have ev: "ev = ''tagDetected''" by simp
    show ?thesis
      using True DataObject
      by (auto simp add: handleNativeMessage_def ev split: option.splits prod.splits
          dest: callListeners_mem callListeners_mem_fst)
  next
    case False
    with assms DataObject have ev: "ev = ''nfcStatusChanged''" and ty: "ty = Some ''nfcStatusChanged''"
      by (simp_all split: if_splits)
    show ?thesis
      using ty DataObject
      by (auto simp add: handleNativeMessage_def ev split: option.splits prod.splits
          dest: callListeners_mem callListeners_mem_fst)
  qed
qed

lemma web_onReading_subset:
  "fst ` set (fst (web_onReading decode w event a))
     \<subseteq> set (listenersFor (WebNfc.listeners w) ''tagDetected'')"
  by (auto simp add: web_onReading_def Let_def split: sum.splits option.splits prod.splits
      dest: callListeners_mem callListeners_mem_fst)

lemma plugin_deliver_subset:
  assumes "deliveryName dl = Some ev"
  shows "fst ` set (fst (plugin_deliver decode p dl)) \<subseteq> set (listenersFor (plugin_listeners p) ev)"
proof (cases p)
  case (Web w)
  show ?thesis
  proof (cases dl)
    case (Reading event a)
    with assms have "ev = ''tagDetected''" by simp
    then show ?thesis
      using Web Reading web_onReading_subset [of decode w event a]
      by (simp add: split_beta)
  next
    case (Message d)
    with Web show ?thesis by simp
  qed
next
  case (Ios s)
  show ?thesis
  proof (cases dl)
    case (Reading event a)
    with Ios show ?thesis by simp
  next
    case (Message d)
    then show ?thesis
      using Ios assms handleNativeMessage_subset [of d ev "IosBridgeNfc.listeners s"]
      by (simp add: ios_onMessage_def)
  qed
next
  case (Android s)
  show ?thesis
  proof (cases dl)
    case (Reading event a)
    with Android show ?thesis by simp
  next
    case (Message d)
    then show ?thesis
      using Android assms handleNativeMessage_subset [of d ev "AndroidBridgeNfc.listeners s"]
      by (simp add: android_onMessage_def)
  qed
qed

lemma throughFacade_Nil: "throughFacade fac [] = []"
  by (simp add: throughFacade_def)

lemma throughFacade_Cons:
  "throughFacade fac ((cb, d) # calls) =
     (case cb of
        StatusMonitor \<Rightarrow> (StatusMonitor, d) # notifyListeners fac ''nfcStatusChanged'' d
      | UserFn n t \<Rightarrow> [(cb, d)]) @ throughFacade fac calls"
  by (simp add: throughFacade_def)

lemma notifyListeners_mem:
  "(f, x) \<in> set (notifyListeners fac ev d) \<Longrightarrow> f \<in> set (listenersFor (Nfc.listeners fac) ev)"
  by (auto simp add: notifyListeners_def listenersFor_def split: option.splits)

lemma throughFacade_calls:
  assumes "(f, x) \<in> set (throughFacade fac calls)"
  shows "f \<in> fst ` set calls
         \<or> (StatusMonitor \<in> fst ` set calls
             \<and> f \<in> set (listenersFor (Nfc.listeners fac) ''nfcStatusChanged''))"
  using assms
proof (induction calls)
  case Nil
  then show ?case by (simp add: throughFacade_Nil)
next
  case (Cons c calls)
  obtain cb d where c: "c = (cb, d)" by (cases c)
  show ?case
  proof (cases "(f, x) \<in> set (throughFacade fac calls)")
    case True
    with Cons.IH show ?thesis by auto
  next
    case False
    with Cons.prems c have here: "(f, x) \<in> set (case cb of
        StatusMonitor \<Rightarrow> (StatusMonitor, d) # notifyListeners fac ''nfcStatusChanged'' d
      | UserFn n t \<Rightarrow> [(cb, d)])"
      by (simp add: throughFacade_Cons)
    show ?thesis
    proof (cases cb)
      case (UserFn n t)
      with here c show ?thesis by auto
    next
      case StatusMonitor
      with here c show ?thesis
        by (auto dest: notifyListeners_mem)
    qed
  qed
qed

lemma deliveryName_cases:
  "deliveryName dl = Some ev \<Longrightarrow> ev = ''tagDetected'' \<or> ev = ''nfcStatusChanged''"
  by (cases dl rule: deliveryName.cases) (auto split: if_splits)

lemma Nfc_addListener_eq:
  "Nfc_addListener fac ev f =
     (NfcHandle ev f (Handle ev f),
      fac\<lparr>Nfc.listeners := (Nfc.listeners fac)(ev \<mapsto> setAdd (listenersFor (Nfc.listeners fac) ev) f),
          implementation := snd (plugin_addListener (implementation fac) ev f)\<rparr>)"
  by (cases "Nfc.listeners fac ev")
    (simp_all add: Nfc_addListener_def Let_def split_beta plugin_addListener_eq listenersFor_def)

lemma Nfc_remove_eq:
  "Nfc_remove fac (NfcHandle ev f (Handle ev f)) =
     (Inr (),
      fac\<lparr>Nfc.listeners := (case Nfc.listeners fac ev of
                               Some fs \<Rightarrow> (Nfc.listeners fac)(ev \<mapsto> setDelete fs f)
                             | None \<Rightarrow> Nfc.listeners fac),
          implementation := snd (plugin_remove (implementation fac) (Handle ev f))\<rparr>)"
  by (simp add: Let_def split_beta plugin_remove_eq)

text \<open>
  C8. The handle that \<open>addListener\<close> of the facade returns for a function and an event
  name is used, in any state of the facade: \<open>remove\<close> resolves; in the facade's registry
  and in the backend's registry the list for that event is the list before without the
  function, and the list for every other event is the list before, so the function is
  registered for that event no more and every other function stays registered where it
  was; an event of that name delivered afterwards does not call the function; and a second
  \<open>remove\<close> resolves and changes nothing.
\<close>

theorem remove_unregisters:
  assumes rem: "Nfc_remove fac (fst (Nfc_addListener fac0 ev f)) = (r, fac')"
  shows "r = Inr ()
         \<and> listenersFor (Nfc.listeners fac') ev' =
             (if ev' = ev then removeAll f (listenersFor (Nfc.listeners fac) ev)
              else listenersFor (Nfc.listeners fac) ev')
         \<and> listenersFor (plugin_listeners (implementation fac')) ev' =
             (if ev' = ev
              then filter (\<lambda>l. l \<noteq> f) (listenersFor (plugin_listeners (implementation fac)) ev)
              else listenersFor (plugin_listeners (implementation fac)) ev')
         \<and> f \<notin> set (listenersFor (Nfc.listeners fac') ev)
         \<and> f \<notin> set (listenersFor (plugin_listeners (implementation fac')) ev)
         \<and> (g \<noteq> f \<or> ev' \<noteq> ev \<longrightarrow>
               (g \<in> set (listenersFor (Nfc.listeners fac') ev')
                  \<longleftrightarrow> g \<in> set (listenersFor (Nfc.listeners fac) ev'))
               \<and> (g \<in> set (listenersFor (plugin_listeners (implementation fac')) ev')
                  \<longleftrightarrow> g \<in> set (listenersFor (plugin_listeners (implementation fac)) ev')))
         \<and> (monitorForStatusOnly fac \<and> deliveryName dl = Some ev
               \<longrightarrow> f \<notin> fst ` set (fst (Nfc_deliver decode fac' dl)))
         \<and> Nfc_remove fac' (fst (Nfc_addListener fac0 ev f)) = (Inr (), fac')"
proof -
  let ?L = "plugin_listeners (implementation fac)"
  let ?F = "Nfc.listeners fac"
  let ?h = "NfcHandle ev f (Handle ev f)"
  have h: "fst (Nfc_addListener fac0 ev f) = ?h"
    by (simp add: Nfc_addListener_eq)
  from rem have r: "r = Inr ()"
    and fac': "fac' = fac\<lparr>Nfc.listeners := (case ?F ev of
                                Some fs \<Rightarrow> ?F(ev \<mapsto> setDelete fs f)
                              | None \<Rightarrow> ?F),
                 implementation := snd (plugin_remove (implementation fac) (Handle ev f))\<rparr>"
    unfolding h Nfc_remove_eq by simp_all
  have outer: "listenersFor (Nfc.listeners fac') e =
      (if e = ev then removeAll f (listenersFor ?F ev) else listenersFor ?F e)" for e
    by (simp add: fac' listenersFor_def setDelete_def split: option.splits)
  have inner: "listenersFor (plugin_listeners (implementation fac')) e =
      (if e = ev then filter (\<lambda>l. l \<noteq> f) (listenersFor ?L ev) else listenersFor ?L e)" for e
    by (simp add: fac' plugin_remove_eq listenersFor_removeListener)
  have a: "f \<notin> set (listenersFor (Nfc.listeners fac') ev)"
    by (simp add: outer)
  have b: "f \<notin> set (listenersFor (plugin_listeners (implementation fac')) ev)"
    by (simp add: inner)
  have frame: "(g \<in> set (listenersFor (Nfc.listeners fac') ev')
                  \<longleftrightarrow> g \<in> set (listenersFor ?F ev'))
               \<and> (g \<in> set (listenersFor (plugin_listeners (implementation fac')) ev')
                  \<longleftrightarrow> g \<in> set (listenersFor ?L ev'))"
    if "g \<noteq> f \<or> ev' \<noteq> ev"
    using that by (auto simp add: outer inner)
  have c: "f \<notin> fst ` set (fst (Nfc_deliver decode fac' dl))"
    if inv: "monitorForStatusOnly fac" and name: "deliveryName dl = Some ev"
  proof
    assume "f \<in> fst ` set (fst (Nfc_deliver decode fac' dl))"
    then obtain x where
      "(f, x) \<in> set (throughFacade fac' (fst (plugin_deliver decode (implementation fac') dl)))"
      by (auto simp add: Nfc_deliver_def split_beta)
    then consider
        (direct) "f \<in> fst ` set (fst (plugin_deliver decode (implementation fac') dl))"
      | (monitor) "StatusMonitor \<in> fst ` set (fst (plugin_deliver decode (implementation fac') dl))"
          "f \<in> set (listenersFor (Nfc.listeners fac') ''nfcStatusChanged'')"
      using throughFacade_calls by blast
    then show False
    proof cases
      case direct
      with plugin_deliver_subset [OF name, of decode "implementation fac'"] b show False
        by auto
    next
      case monitor
      from monitor(1) plugin_deliver_subset [OF name, of decode "implementation fac'"]
      have m: "StatusMonitor \<in> set (listenersFor (plugin_listeners (implementation fac')) ev)"
        by auto
      show False
      proof (cases "ev = ''nfcStatusChanged''")
        case True
        with monitor(2) a show False by simp
      next
        case False
        with deliveryName_cases [OF name] have ev: "ev = ''tagDetected''" by simp
        from m have "StatusMonitor \<in> set (listenersFor ?L ''tagDetected'')"
          by (auto simp add: inner ev)
        with inv show False
          by (simp add: monitorForStatusOnly_def)
      qed
    qed
  qed
  have outer_eq: "(case Nfc.listeners fac' ev of
                     Some fs \<Rightarrow> (Nfc.listeners fac')(ev \<mapsto> setDelete fs f)
                   | None \<Rightarrow> Nfc.listeners fac') = Nfc.listeners fac'"
    by (cases "?F ev") (simp_all add: fac' setDelete_def)
  have inner_eq: "snd (plugin_remove (implementation fac') (Handle ev f)) = implementation fac'"
    using plugin_remove_twice [of "implementation fac" ev f] by (simp add: fac')
  have d: "Nfc_remove fac' (fst (Nfc_addListener fac0 ev f)) = (Inr (), fac')"
    unfolding h Nfc_remove_eq outer_eq inner_eq by simp
  from r a b c d outer [of ev'] inner [of ev'] frame show ?thesis
    by blast
qed

text \<open>The condition of C8 holds after the constructor, and registering a function of the
  caller or removing a listener keeps it.\<close>

lemma listenersFor_empty: "listenersFor Map.empty ev = []"
  by (simp add: listenersFor_def)

lemma Nfc_new_monitorForStatusOnly: "monitorForStatusOnly (Nfc_new win)"
  by (simp add: monitorForStatusOnly_def Nfc_new_def Let_def monitorNfcStatus_def
      plugin_addListener_eq listenersFor_pushListener useNativeBridge_undefined
      WebNfc_new_def IosBridgeNfc_new_def AndroidBridgeNfc_new_def listenersFor_empty)

lemma Nfc_addListener_monitorForStatusOnly:
  "monitorForStatusOnly fac \<Longrightarrow> monitorForStatusOnly (snd (Nfc_addListener fac ev (UserFn n t)))"
  by (auto simp add: monitorForStatusOnly_def Nfc_addListener_eq plugin_addListener_eq
      listenersFor_pushListener)

lemma Nfc_remove_monitorForStatusOnly:
  "monitorForStatusOnly fac \<Longrightarrow>
   monitorForStatusOnly (snd (Nfc_remove fac (NfcHandle ev f (Handle ev f))))"
  by (auto simp add: monitorForStatusOnly_def Nfc_remove_eq plugin_remove_eq
      listenersFor_removeListener simp del: Nfc_remove.simps)

text \<open>The other operations of the facade keep the condition of C8 as well.\<close>

lemma plugin_startScanSession_listeners:
  "plugin_listeners (snd (plugin_startScanSession p options constructed answer)) = plugin_listeners p"
  by (cases p)
    (auto simp add: web_startScanSession_def ios_startScanSession_def android_startScanSession_def
      Let_def split: sum.splits option.splits)

lemma plugin_stopScanSession_listeners:
  "plugin_listeners (snd (plugin_stopScanSession p answer)) = plugin_listeners p"
  by (cases p)
    (auto simp add: web_stopScanSession_eq ios_stopScanSession_def android_stopScanSession_def
      split: option.splits)

lemma web_onReading_listeners:
  "WebNfc.listeners (snd (web_onReading decode w event a)) = WebNfc.listeners w"
  by (auto simp add: web_onReading_def Let_def web_stopScanSession_eq
      split: sum.splits option.splits prod.splits)

lemma plugin_deliver_listeners:
  "plugin_listeners (snd (plugin_deliver decode p dl)) = plugin_listeners p"
  by (cases "(decode, p, dl)" rule: plugin_deliver.cases)
    (simp_all add: split_beta web_onReading_listeners)

lemma Nfc_operations_monitorForStatusOnly:
  assumes "monitorForStatusOnly fac"
  shows "monitorForStatusOnly (snd (Nfc_startScanSession fac options constructed answer))"
    and "monitorForStatusOnly (snd (Nfc_stopScanSession fac answer))"
    and "monitorForStatusOnly (snd (Nfc_deliver decode fac dl))"
    and "monitorForStatusOnly (snd (Nfc_removeAllListeners fac))"
proof -
  show "monitorForStatusOnly (snd (Nfc_startScanSession fac options constructed answer))"
    using assms
    by (simp add: monitorForStatusOnly_def Nfc_startScanSession_def Let_def split_beta
        plugin_startScanSession_listeners split: sum.splits)
  show "monitorForStatusOnly (snd (Nfc_stopScanSession fac answer))"
    using assms
    by (simp add: monitorForStatusOnly_def Nfc_stopScanSession_def split_beta
        plugin_stopScanSession_listeners)
  show "monitorForStatusOnly (snd (Nfc_deliver decode fac dl))"
    using assms
    by (simp add: monitorForStatusOnly_def Nfc_deliver_def split_beta plugin_deliver_listeners)
  show "monitorForStatusOnly (snd (Nfc_removeAllListeners fac))"
    by (cases "implementation fac")
      (simp_all add: monitorForStatusOnly_def Nfc_removeAllListeners_def split_beta
        web_removeAllListeners_def ios_removeAllListeners_def android_removeAllListeners_def
        listenersFor_empty)
qed

text \<open>
  C8 at a facade over the iOS bridge with two listeners for status changes: a status
  message calls both before \<open>remove\<close> of the first one's handle; after it the message
  calls the second listener and not the first, and the second listener is still in both
  registries.
\<close>

theorem remove_unregisters_witness:
  "monitorForStatusOnly
     (snd (Nfc_addListener (snd (Nfc_addListener
        (Nfc_new \<lparr>userAgent = ''iPhone'', readerInWindow = False,
           nativeNfcBridge = SlotObject \<lparr>NativeIosBridge.isNfcEnabled = True,
             NativeIosBridge.startNfcScan = True, NativeIosBridge.stopNfcScan = True,
             NativeIosBridge.writeNfcTag = True, openSettings = True\<rparr>,
           nativeAndroidNfcBridge = SlotUndefined\<rparr>)
        ''nfcStatusChanged'' (UserFn 7 None))) ''nfcStatusChanged'' (UserFn 8 None)))
   \<and> deliveryName (Message (DataObject (Some ''nfcStatusChanged'') None (JBool True)))
       = Some ''nfcStatusChanged''
   \<and> UserFn 7 None \<in> fst ` set (fst (Nfc_deliver utf8Decode
         (snd (Nfc_addListener (snd (Nfc_addListener
            (Nfc_new \<lparr>userAgent = ''iPhone'', readerInWindow = False,
               nativeNfcBridge = SlotObject \<lparr>NativeIosBridge.isNfcEnabled = True,
                 NativeIosBridge.startNfcScan = True, NativeIosBridge.stopNfcScan = True,
                 NativeIosBridge.writeNfcTag = True, openSettings = True\<rparr>,
               nativeAndroidNfcBridge = SlotUndefined\<rparr>)
            ''nfcStatusChanged'' (UserFn 7 None))) ''nfcStatusChanged'' (UserFn 8 None)))
         (Message (DataObject (Some ''nfcStatusChanged'') None (JBool True)))))
   \<and> fst (Nfc_remove
         (snd (Nfc_addListener (snd (Nfc_addListener
            (Nfc_new \<lparr>userAgent = ''iPhone'', readerInWindow = False,
               nativeNfcBridge = SlotObject \<lparr>NativeIosBridge.isNfcEnabled = True,
                 NativeIosBridge.startNfcScan = True, NativeIosBridge.stopNfcScan = True,
                 NativeIosBridge.writeNfcTag = True, openSettings = True\<rparr>,
               nativeAndroidNfcBridge = SlotUndefined\<rparr>)
            ''nfcStatusChanged'' (UserFn 7 None))) ''nfcStatusChanged'' (UserFn 8 None)))
         (NfcHandle ''nfcStatusChanged'' (UserFn 7 None)
            (Handle ''nfcStatusChanged'' (UserFn 7 None)))) = Inr ()
   \<and> UserFn 7 None \<notin> fst ` set (fst (Nfc_deliver utf8Decode
         (snd (Nfc_remove
           (snd (Nfc_addListener (snd (Nfc_addListener
              (Nfc_new \<lparr>userAgent = ''iPhone'', readerInWindow = False,
                 nativeNfcBridge = SlotObject \<lparr>NativeIosBridge.isNfcEnabled = True,
                   NativeIosBridge.startNfcScan = True, NativeIosBridge.stopNfcScan = True,
                   NativeIosBridge.writeNfcTag = True, openSettings = True\<rparr>,
                 nativeAndroidNfcBridge = SlotUndefined\<rparr>)
              ''nfcStatusChanged'' (UserFn 7 None))) ''nfcStatusChanged'' (UserFn 8 None)))
           (NfcHandle ''nfcStatusChanged'' (UserFn 7 None)
              (Handle ''nfcStatusChanged'' (UserFn 7 None)))))
         (Message (DataObject (Some ''nfcStatusChanged'') None (JBool True)))))
   \<and> UserFn 8 None \<in> fst ` set (fst (Nfc_deliver utf8Decode
         (snd (Nfc_remove
           (snd (Nfc_addListener (snd (Nfc_addListener
              (Nfc_new \<lparr>userAgent = ''iPhone'', readerInWindow = False,
                 nativeNfcBridge = SlotObject \<lparr>NativeIosBridge.isNfcEnabled = True,
                   NativeIosBridge.startNfcScan = True, NativeIosBridge.stopNfcScan = True,
                   NativeIosBridge.writeNfcTag = True, openSettings = True\<rparr>,
                 nativeAndroidNfcBridge = SlotUndefined\<rparr>)
              ''nfcStatusChanged'' (UserFn 7 None))) ''nfcStatusChanged'' (UserFn 8 None)))
           (NfcHandle ''nfcStatusChanged'' (UserFn 7 None)
              (Handle ''nfcStatusChanged'' (UserFn 7 None)))))
         (Message (DataObject (Some ''nfcStatusChanged'') None (JBool True)))))
   \<and> listenersFor (Nfc.listeners
         (snd (Nfc_remove
           (snd (Nfc_addListener (snd (Nfc_addListener
              (Nfc_new \<lparr>userAgent = ''iPhone'', readerInWindow = False,
                 nativeNfcBridge = SlotObject \<lparr>NativeIosBridge.isNfcEnabled = True,
                   NativeIosBridge.startNfcScan = True, NativeIosBridge.stopNfcScan = True,
                   NativeIosBridge.writeNfcTag = True, openSettings = True\<rparr>,
                 nativeAndroidNfcBridge = SlotUndefined\<rparr>)
              ''nfcStatusChanged'' (UserFn 7 None))) ''nfcStatusChanged'' (UserFn 8 None)))
           (NfcHandle ''nfcStatusChanged'' (UserFn 7 None)
              (Handle ''nfcStatusChanged'' (UserFn 7 None)))))) ''nfcStatusChanged''
       = [UserFn 8 None]
   \<and> listenersFor (plugin_listeners (implementation
         (snd (Nfc_remove
           (snd (Nfc_addListener (snd (Nfc_addListener
              (Nfc_new \<lparr>userAgent = ''iPhone'', readerInWindow = False,
                 nativeNfcBridge = SlotObject \<lparr>NativeIosBridge.isNfcEnabled = True,
                   NativeIosBridge.startNfcScan = True, NativeIosBridge.stopNfcScan = True,
                   NativeIosBridge.writeNfcTag = True, openSettings = True\<rparr>,
                 nativeAndroidNfcBridge = SlotUndefined\<rparr>)
              ''nfcStatusChanged'' (UserFn 7 None))) ''nfcStatusChanged'' (UserFn 8 None)))
           (NfcHandle ''nfcStatusChanged'' (UserFn 7 None)
              (Handle ''nfcStatusChanged'' (UserFn 7 None))))))) ''nfcStatusChanged''
       = [StatusMonitor, UserFn 8 None]"
proof -
  let ?win = "\<lparr>userAgent = ''iPhone'', readerInWindow = False,
        nativeNfcBridge = SlotObject \<lparr>NativeIosBridge.isNfcEnabled = True,
          NativeIosBridge.startNfcScan = True, NativeIosBridge.stopNfcScan = True,
          NativeIosBridge.writeNfcTag = True, openSettings = True\<rparr>,
        nativeAndroidNfcBridge = SlotUndefined\<rparr>"
  let ?f = "UserFn 7 None"
  let ?g = "UserFn 8 None"
  let ?ev = "''nfcStatusChanged''"
  let ?h = "NfcHandle ?ev ?f (Handle ?ev ?f)"
  let ?dl = "Message (DataObject (Some ''nfcStatusChanged'') None (JBool True))"
  let ?fac1 = "snd (Nfc_addListener (Nfc_new ?win) ?ev ?f)"
  let ?fac2 = "snd (Nfc_addListener ?fac1 ?ev ?g)"
  let ?fac3 = "snd (Nfc_remove ?fac2 ?h)"
  have ios: "isIos (getIosSupportInfo ''iPhone'')"
    by code_simp
  have impl: "implementation (Nfc_new ?win)
      = Ios (snd (ios_addListener (IosBridgeNfc_new (nativeNfcBridge ?win)) ?ev StatusMonitor))"
    using ios
    by (simp add: Nfc_new_def Let_def monitorNfcStatus_def split_beta)
  have front0: "Nfc.listeners (Nfc_new ?win) = Map.empty"
    by (simp add: Nfc_new_def Let_def monitorNfcStatus_def)
  have available: "IosBridgeNfc.isBridgeAvailable
      (snd (ios_addListener (IosBridgeNfc_new (nativeNfcBridge ?win)) ?ev StatusMonitor))"
    by (simp add: ios_addListener_def IosBridgeNfc_new_def)
  have inner0: "listenersFor (plugin_listeners (implementation (Nfc_new ?win))) ?ev = [StatusMonitor]"
    by (simp add: impl ios_addListener_def IosBridgeNfc_new_def listenersFor_pushListener
        listenersFor_empty)
  have inv: "monitorForStatusOnly ?fac2"
    by (intro Nfc_addListener_monitorForStatusOnly Nfc_new_monitorForStatusOnly)
  have name: "deliveryName ?dl = Some ?ev"
    by simp
  have h: "fst (Nfc_addListener (Nfc_new ?win) ?ev ?f) = ?h"
    by (simp add: Nfc_addListener_eq)
  have rem: "Nfc_remove ?fac2 (fst (Nfc_addListener (Nfc_new ?win) ?ev ?f)) = (Inr (), ?fac3)"
    unfolding h by (simp add: Nfc_remove_eq del: Nfc_remove.simps)
  have outer2: "listenersFor (Nfc.listeners ?fac2) ?ev = [?f, ?g]"
    by (simp add: Nfc_addListener_eq front0 listenersFor_def setAdd_def)
  have inner2: "listenersFor (plugin_listeners (implementation ?fac2)) ?ev = [StatusMonitor, ?f, ?g]"
    using inner0
    by (simp add: Nfc_addListener_eq plugin_addListener_eq listenersFor_pushListener)
  note facts = remove_unregisters [OF rem, of ?ev ?g ?dl utf8Decode]
  have outer3: "listenersFor (Nfc.listeners ?fac3) ?ev = [?g]"
    using facts outer2 by simp
  have inner3: "listenersFor (plugin_listeners (implementation ?fac3)) ?ev = [StatusMonitor, ?g]"
    using facts inner2 by simp
  have gone: "?f \<notin> fst ` set (fst (Nfc_deliver utf8Decode ?fac3 ?dl))"
    using facts inv name by simp
  have shape2: "\<exists>s. implementation ?fac2 = Ios s \<and> IosBridgeNfc.isBridgeAvailable s"
    using available
    by (simp add: Nfc_addListener_eq impl ios_addListener_def)
  have shape3: "\<exists>s. implementation ?fac3 = Ios s \<and> IosBridgeNfc.isBridgeAvailable s"
    using available
    by (simp add: Nfc_addListener_eq Nfc_remove_eq impl ios_addListener_def
        del: Nfc_remove.simps)
  have calls: "fst (Nfc_deliver utf8Decode fac ?dl)
                = throughFacade fac (fst (callListeners
                    (listenersFor (plugin_listeners (implementation fac)) ?ev) (StatusData True)))"
    if "\<exists>s. implementation fac = Ios s \<and> IosBridgeNfc.isBridgeAvailable s" for fac
    using that
    by (auto simp add: Nfc_deliver_def ios_onMessage_def handleNativeMessage_def split_beta)
  have before: "?f \<in> fst ` set (fst (Nfc_deliver utf8Decode ?fac2 ?dl))"
    unfolding calls [OF shape2] inner2
    by (simp add: throughFacade_def notifyListeners_def)
  have after: "?g \<in> fst ` set (fst (Nfc_deliver utf8Decode ?fac3 ?dl))"
    unfolding calls [OF shape3] inner3
    by (simp add: throughFacade_def notifyListeners_def)
  have res: "fst (Nfc_remove ?fac2 ?h) = Inr ()"
    by (simp add: Nfc_remove_eq del: Nfc_remove.simps)
  from inv name before res gone after outer3 inner3 show ?thesis
    by (simp del: Nfc_remove.simps)
qed

end
